theory Spec2Isabelle
  imports Complex_Main
begin

section \<open>Numeric arrays and Python errors\<close>

text \<open>
  The estimators of \<^verbatim>\<open>trex/models/linear_model.py\<close> compute with numpy arrays of
  floating-point numbers. The embedding takes the numbers as reals: a 1-d array is a list, a
  2-d array is the list of its rows (all of one length, as the rows of an array are). Every
  exception the Python can raise is a value of \<open>error\<close>, returned on the left of a sum;
  \<open>OutsideReals\<close> is no exception: it marks a computation whose floating-point result is
  \<open>inf\<close> or \<open>nan\<close>, which the reals do not have.
\<close>

datatype error =
    AssertionError
  | ValueError
  | IndexError
  | AttributeError
  | TypeError
  | UnboundLocalError
  | ZeroDivisionError
  | OutsideReals

type_synonym vec = "real list"
type_synonym matrix = "real list list"

text \<open>A pairwise kernel: the similarity of one query row and one reference row.\<close>

type_synonym kernel = "vec \<Rightarrow> vec \<Rightarrow> real"

text \<open>\<^verbatim>\<open>X.shape[1]\<close> of a 2-d array given as its rows (an array without rows is taken
  to have no columns).\<close>

definition n_cols :: "matrix \<Rightarrow> nat" where
  "n_cols X = (case X of [] \<Rightarrow> 0 | r # _ \<Rightarrow> length r)"

text \<open>
  The kernels of \<^verbatim>\<open>sklearn.metrics.pairwise\<close> map a query block and a reference
  block to the matrix of the pairwise similarities, one row per query row.
\<close>

definition kernel_matrix :: "kernel \<Rightarrow> matrix \<Rightarrow> matrix \<Rightarrow> matrix" where
  "kernel_matrix K A B = map (\<lambda>a. map (K a) B) A"

text \<open>
  The inner product of two rows of one width. sklearn refuses blocks of different widths
  (and blocks without rows) with a ValueError before it computes anything; that validation is
  not part of the embedding, which is used on rows of the training width only.
\<close>

definition dot :: "vec \<Rightarrow> vec \<Rightarrow> real" where
  "dot a b = sum_list (map2 (*) a b)"

definition linear_kernel :: kernel where
  "linear_kernel a b = dot a b"

definition rbf_kernel :: "real \<Rightarrow> kernel" where
  "rbf_kernel g a b = exp (- g * sum_list (map2 (\<lambda>u v. (u - v)\<^sup>2) a b))"

definition polynomial_kernel :: "nat \<Rightarrow> real \<Rightarrow> real \<Rightarrow> kernel" where
  "polynomial_kernel degree g coef0 a b = (g * dot a b + coef0) ^ degree"

definition sigmoid_kernel :: "real \<Rightarrow> real \<Rightarrow> kernel" where
  "sigmoid_kernel coef0 g a b = tanh (g * dot a b + coef0)"

text \<open>Running a fallible function over a list stops at the first error.\<close>

fun map_err :: "('a \<Rightarrow> error + 'b) \<Rightarrow> 'a list \<Rightarrow> error + 'b list" where
  "map_err f [] = Inr []"
| "map_err f (x # xs) =
     (case f x of
        Inl e \<Rightarrow> Inl e
      | Inr y \<Rightarrow> (case map_err f xs of Inl e \<Rightarrow> Inl e | Inr ys \<Rightarrow> Inr (y # ys)))"

text \<open>
  numpy's integer-array indexing \<^verbatim>\<open>X[indices]\<close> with non-negative indices: the rows at
  the indices, IndexError when one is out of bounds.
\<close>

definition take_rows :: "'a list \<Rightarrow> nat list \<Rightarrow> error + 'a list" where
  "take_rows X idx =
     (if list_all (\<lambda>i. i < length X) idx then Inr (map ((!) X) idx) else Inl IndexError)"

text \<open>
  numpy's broadcasting product of one row of a 2-d array with a 1-d array: elementwise when
  the lengths agree, a length-one operand is stretched, anything else is a ValueError.
\<close>

definition bmul :: "vec \<Rightarrow> vec \<Rightarrow> error + vec" where
  "bmul row c =
     (if length row = length c then Inr (map2 (*) row c)
      else if length c = 1 then Inr (map (\<lambda>v. v * hd c) row)
      else if length row = 1 then Inr (map (\<lambda>w. hd row * w) c)
      else Inl ValueError)"

text \<open>
  A one-row \<^verbatim>\<open>scipy.sparse.csr_matrix((data, indices, indptr), shape=(1, n))\<close>. The
  constructor refuses data and indices of different lengths. The entry of a column is the sum
  of the data stored under that column index; the sum of the matrix is the sum of its data.
\<close>

record csr_row =
  data :: vec
  indices :: "nat list"
  width :: nat

definition csr_matrix :: "vec \<Rightarrow> nat list \<Rightarrow> nat \<Rightarrow> error + csr_row" where
  "csr_matrix d idx n =
     (if length d = length idx then Inr \<lparr>data = d, indices = idx, width = n\<rparr>
      else Inl ValueError)"

definition csr_entry :: "csr_row \<Rightarrow> nat \<Rightarrow> real" where
  "csr_entry m i = sum_list (map fst (filter (\<lambda>p. snd p = i) (zip (data m) (indices m))))"

definition csr_sum :: "csr_row \<Rightarrow> real" where
  "csr_sum m = sum_list (data m)"

section \<open>The binary kernel SVM estimator\<close>

text \<open>
  The state of a \<^verbatim>\<open>BinarySVM\<close> after \<^verbatim>\<open>fit\<close>: the training matrix
  \<^verbatim>\<open>X_train_\<close>, the dual coefficients \<^verbatim>\<open>coef_\<close> of the support vectors, their row
  indices \<^verbatim>\<open>coef_indices_\<close>, the bias \<^verbatim>\<open>intercept_\<close>, \<^verbatim>\<open>n_features_\<close>, and the
  two constructor arguments the queries read. \<^verbatim>\<open>kernel_func\<close> is the pairwise kernel
  that the estimator's kernel callable computes on two blocks; the callables that
  \<^verbatim>\<open>SVM\<close> builds are sklearn's pairwise kernels.
\<close>

record BinarySVM =
  X_train :: matrix
  n_features :: nat
  coef :: vec
  coef_indices :: "nat list"
  intercept :: real
  kernel_func :: kernel
  pred_size :: int

text \<open>
  One pass of the loop body of \<^verbatim>\<open>decision_function\<close> on the block \<open>B\<close>:
  \<^verbatim>\<open>np.sum(kernel_func(B, X_train_[coef_indices_]) * coef_, axis=1) + intercept_\<close>.
\<close>

definition block_decision :: "BinarySVM \<Rightarrow> matrix \<Rightarrow> error + vec" where
  "block_decision m B =
     (case take_rows (X_train m) (coef_indices m) of
        Inl e \<Rightarrow> Inl e
      | Inr sv \<Rightarrow>
          (case map_err (\<lambda>r. bmul r (coef m)) (kernel_matrix (kernel_func m) B sv) of
             Inl e \<Rightarrow> Inl e
           | Inr P \<Rightarrow> Inr (map (\<lambda>r. sum_list r + intercept m) P)))"

text \<open>
  The loop \<^verbatim>\<open>for i in range(0, len(X), pred_size)\<close> from the index \<open>i\<close> on, for a
  positive step \<open>p\<close>: it applies the loop body \<open>f\<close> to the block
  \<^verbatim>\<open>X[i: i + pred_size]\<close> and collects the results in a list. Both
  \<^verbatim>\<open>BinarySVM.decision_function\<close> and
  \<^verbatim>\<open>BinaryKernelLogisticRegression.predict_proba\<close> are this loop.
\<close>

function block_loop :: "(matrix \<Rightarrow> error + vec) \<Rightarrow> matrix \<Rightarrow> nat \<Rightarrow> nat \<Rightarrow> error + vec list" where
  "block_loop f X p i =
     (if 0 < p \<and> i < length X then
        (case f (take p (drop i X)) of
           Inl e \<Rightarrow> Inl e
         | Inr d \<Rightarrow>
             (case block_loop f X p (i + p) of
                Inl e \<Rightarrow> Inl e
              | Inr ds \<Rightarrow> Inr (d # ds)))
      else Inr [])"
  by pat_completeness auto
termination
  by (relation "measure (\<lambda>(f, X, p, i). length X - i)") auto

declare block_loop.simps [simp del]

text \<open>
  \<^verbatim>\<open>decision_function\<close>: \<^verbatim>\<open>range\<close> refuses a zero step, a negative step gives no
  block at all, and \<^verbatim>\<open>np.concatenate\<close> refuses an empty list of blocks.
\<close>

definition decision_function :: "BinarySVM \<Rightarrow> matrix \<Rightarrow> error + vec" where
  "decision_function m X =
     (if pred_size m = 0 then Inl ValueError
      else
        (case block_loop (block_decision m) X (nat (pred_size m)) 0 of
           Inl e \<Rightarrow> Inl e
         | Inr ds \<Rightarrow> if ds = [] then Inl ValueError else Inr (concat ds)))"

definition predict :: "BinarySVM \<Rightarrow> matrix \<Rightarrow> error + int list" where
  "predict m X =
     (case decision_function m X of
        Inl e \<Rightarrow> Inl e
      | Inr d \<Rightarrow> Inr (map (\<lambda>v. if v \<ge> 0 then 1 else 0) d))"

definition get_weight :: "BinarySVM \<Rightarrow> error + csr_row" where
  "get_weight m = csr_matrix (coef m) (coef_indices m) (length (X_train m))"

text \<open>
  \<^verbatim>\<open>explain\<close>: the shape assertion, then the first (and only) row of the broadcast
  product as the data of a sparse row over the training-set index space.
\<close>

definition explain :: "BinarySVM \<Rightarrow> matrix \<Rightarrow> error + csr_row" where
  "explain m x =
     (if \<not> (length x = 1 \<and> n_cols x = n_cols (X_train m)) then Inl AssertionError
      else
        (case take_rows (X_train m) (coef_indices m) of
           Inl e \<Rightarrow> Inl e
         | Inr sv \<Rightarrow>
             (case map_err (\<lambda>r. bmul r (coef m)) (kernel_matrix (kernel_func m) x sv) of
                Inl e \<Rightarrow> Inl e
              | Inr P \<Rightarrow> csr_matrix (hd P) (coef_indices m) (length (X_train m)))))"

text \<open>
  What the queries rely on in a fitted estimator: sklearn's \<^verbatim>\<open>SVC\<close> gives one dual
  coefficient per support index, the support indices are rows of the training matrix, and
  the block size is positive (with any other block size the self-check of \<^verbatim>\<open>fit\<close>
  raises, see \<open>fit_returns_fitted\<close>).
\<close>

definition fitted :: "BinarySVM \<Rightarrow> bool" where
  "fitted m \<longleftrightarrow>
     length (coef m) = length (coef_indices m) \<and>
     list_all (\<lambda>i. i < length (X_train m)) (coef_indices m) \<and>
     1 \<le> pred_size m"

section \<open>Fitting the binary SVM\<close>

text \<open>
  The \<^verbatim>\<open>gamma\<close> argument is the string \<^verbatim>\<open>'scale'\<close> (or any other string), \<^verbatim>\<open>None\<close>
  or a number; a resolved \<^verbatim>\<open>gamma_\<close> can also be a float that is not a real number
  (\<open>inf\<close> or \<open>nan\<close>, from a division by a zero or undefined variance).
\<close>

datatype gamma_value = GammaStr string | GammaNone | GammaNum real | GammaNonFinite

text \<open>The constructor arguments of \<^verbatim>\<open>BinarySVM\<close>; \<open>'k\<close> is the kernel callable.\<close>

record 'k BinarySVM_args =
  arg_C :: real
  arg_kernel :: string
  arg_gamma :: gamma_value
  arg_coef0 :: real
  arg_degree :: nat
  arg_kernel_func :: 'k
  arg_pred_size :: int
  arg_random_state :: "int option"

text \<open>
  sklearn's \<^verbatim>\<open>SVC\<close> is an external collaborator: a function from its constructor
  arguments and the training data to a fitted model, or an error. A fitted model offers the
  attributes and the two methods that \<^verbatim>\<open>BinarySVM.fit\<close> reads.
\<close>

record SVC_args =
  svc_C :: real
  svc_kernel :: string
  svc_random_state :: "int option"
  svc_gamma :: gamma_value
  svc_coef0 :: real
  svc_degree :: nat

record SVC_model =
  dual_coef :: matrix
  support :: "nat list"
  svc_intercept :: vec
  svc_predict :: "matrix \<Rightarrow> error + int list"
  svc_decision_function :: "matrix \<Rightarrow> error + vec"

type_synonym SVC = "SVC_args \<Rightarrow> matrix \<Rightarrow> int list \<Rightarrow> error + SVC_model"

text \<open>
  \<^verbatim>\<open>np.allclose(a, b, rtol=1e-05, atol=...)\<close> on 1-d arrays:
  \<open>\<bar>a - b\<bar> \<le> atol + rtol * \<bar>b\<bar>\<close> at every position, with numpy's broadcasting.
\<close>

definition isclose :: "real \<Rightarrow> real \<Rightarrow> real \<Rightarrow> bool" where
  "isclose atol u v \<longleftrightarrow> \<bar>u - v\<bar> \<le> atol + (1 / 100000) * \<bar>v\<bar>"

definition np_allclose :: "real \<Rightarrow> vec \<Rightarrow> vec \<Rightarrow> error + bool" where
  "np_allclose atol a b =
     (if length a = length b then Inr (list_all2 (isclose atol) a b)
      else if length b = 1 then Inr (list_all (\<lambda>u. isclose atol u (hd b)) a)
      else if length a = 1 then Inr (list_all (\<lambda>v. isclose atol (hd a) v) b)
      else Inl ValueError)"

definition default_atol :: real where
  "default_atol = 1 / 100000000"

text \<open>The slice \<^verbatim>\<open>X[:n]\<close>; a negative \<open>n\<close> counts from the end.\<close>

definition py_prefix :: "int \<Rightarrow> 'a list \<Rightarrow> 'a list" where
  "py_prefix n xs = (if 0 \<le> n then take (nat n) xs else take (length xs - nat (- n)) xs)"

text \<open>
  The assignments of \<^verbatim>\<open>BinarySVM.fit\<close> after training: the dual form read off the
  solver's model. \<^verbatim>\<open>dual_coef_[0]\<close> and \<^verbatim>\<open>intercept_[0]\<close> raise IndexError on an
  empty array.
\<close>

definition dual_form :: "kernel BinarySVM_args \<Rightarrow> matrix \<Rightarrow> SVC_model \<Rightarrow> error + BinarySVM" where
  "dual_form a X model =
     (case dual_coef model of
        [] \<Rightarrow> Inl IndexError
      | c # _ \<Rightarrow>
          (case svc_intercept model of
             [] \<Rightarrow> Inl IndexError
           | b # _ \<Rightarrow>
               Inr \<lparr>X_train = X, n_features = n_cols X, coef = c, coef_indices = support model,
                    intercept = b, kernel_func = arg_kernel_func a,
                    pred_size = arg_pred_size a\<rparr>))"

text \<open>
  \<^verbatim>\<open>BinarySVM.fit(X, y, n_check)\<close>: train an \<^verbatim>\<open>SVC\<close> built from the constructor
  arguments, store the dual form, then the two sanity assertions on the first \<open>n_check\<close> training rows. In each assertion the solver's own
  output is computed before the estimator's.
\<close>

definition SVC_arguments :: "'k BinarySVM_args \<Rightarrow> SVC_args" where
  "SVC_arguments a =
     \<lparr>svc_C = arg_C a, svc_kernel = arg_kernel a, svc_random_state = arg_random_state a,
      svc_gamma = arg_gamma a, svc_coef0 = arg_coef0 a, svc_degree = arg_degree a\<rparr>"

definition BinarySVM_fit ::
  "SVC \<Rightarrow> kernel BinarySVM_args \<Rightarrow> matrix \<Rightarrow> int list \<Rightarrow> int \<Rightarrow> error + BinarySVM" where
  "BinarySVM_fit svc a X y n_check =
     (case svc (SVC_arguments a) X y of
        Inl e \<Rightarrow> Inl e
      | Inr model \<Rightarrow>
          (case dual_form a X model of
             Inl e \<Rightarrow> Inl e
           | Inr self \<Rightarrow>
               (case svc_predict model (py_prefix n_check X) of
                  Inl e \<Rightarrow> Inl e
                | Inr p \<Rightarrow>
                    (case predict self (py_prefix n_check X) of
                       Inl e \<Rightarrow> Inl e
                     | Inr q \<Rightarrow>
                         (case np_allclose default_atol (map real_of_int p) (map real_of_int q) of
                            Inl e \<Rightarrow> Inl e
                          | Inr ok1 \<Rightarrow>
                              if \<not> ok1 then Inl AssertionError
                              else
                                (case svc_decision_function model (py_prefix n_check X) of
                                   Inl e \<Rightarrow> Inl e
                                 | Inr d \<Rightarrow>
                                     (case decision_function self (py_prefix n_check X) of
                                        Inl e \<Rightarrow> Inl e
                                      | Inr d' \<Rightarrow>
                                          (case np_allclose default_atol d d' of
                                             Inl e \<Rightarrow> Inl e
                                           | Inr ok2 \<Rightarrow>
                                               if \<not> ok2 then Inl AssertionError
                                               else Inr self))))))))"

text \<open>
  The self-check in the words of the specification: on the rows \<open>Xs\<close>, the labels and the
  decision values recomputed from the dual form agree, within the floating tolerance, with
  the solver's own.
\<close>

definition agrees_with_solver :: "SVC_model \<Rightarrow> BinarySVM \<Rightarrow> matrix \<Rightarrow> bool" where
  "agrees_with_solver model m Xs \<longleftrightarrow>
     (\<exists>p q d d'.
        svc_predict model Xs = Inr p \<and> predict m Xs = Inr q \<and>
        np_allclose default_atol (map real_of_int p) (map real_of_int q) = Inr True \<and>
        svc_decision_function model Xs = Inr d \<and> decision_function m Xs = Inr d' \<and>
        np_allclose default_atol d d' = Inr True)"

section \<open>The multiclass SVM dispatcher\<close>

text \<open>
  sklearn's fitted \<^verbatim>\<open>OneVsRestClassifier\<close>, as far as the dispatchers read it: the
  ordered list \<^verbatim>\<open>estimators_\<close> (one binary estimator per class in sorted label order; a
  single one for a two-class problem), the sorted labels \<^verbatim>\<open>classes_\<close>, and its
  \<^verbatim>\<open>predict\<close>.
\<close>

record 'e OneVsRestClassifier =
  estimators :: "'e list"
  classes :: "int list"
  ovr_predict :: "matrix \<Rightarrow> error + int list"

text \<open>
  The kernel callable that \<^verbatim>\<open>SVM._create_kernel_callable\<close> stores: one of four lambdas
  over sklearn's pairwise kernels, closed over the resolved gamma, the degree and
  \<^verbatim>\<open>coef0\<close>.
\<close>

datatype kernel_callable =
    LinearKernel
  | RbfKernel gamma_value
  | PolyKernel nat gamma_value real
  | SigmoidKernel real gamma_value

text \<open>
  Calling the lambda. sklearn multiplies by gamma: a string is a TypeError, \<^verbatim>\<open>None\<close> is
  replaced by sklearn's own default \<open>1 / n_features\<close> of the query, and a non-finite gamma
  gives entries that are no real numbers.
\<close>

definition gamma_number :: "gamma_value \<Rightarrow> matrix \<Rightarrow> error + real" where
  "gamma_number g X =
     (case g of
        GammaNum v \<Rightarrow> Inr v
      | GammaStr s \<Rightarrow> Inl TypeError
      | GammaNone \<Rightarrow> if n_cols X = 0 then Inl ZeroDivisionError else Inr (1 / real (n_cols X))
      | GammaNonFinite \<Rightarrow> Inl OutsideReals)"

definition call_kernel :: "kernel_callable \<Rightarrow> matrix \<Rightarrow> matrix \<Rightarrow> error + matrix" where
  "call_kernel kf X1 X2 =
     (case kf of
        LinearKernel \<Rightarrow> Inr (kernel_matrix linear_kernel X1 X2)
      | RbfKernel g \<Rightarrow>
          (case gamma_number g X1 of
             Inl e \<Rightarrow> Inl e
           | Inr v \<Rightarrow> Inr (kernel_matrix (rbf_kernel v) X1 X2))
      | PolyKernel deg g c0 \<Rightarrow>
          (case gamma_number g X1 of
             Inl e \<Rightarrow> Inl e
           | Inr v \<Rightarrow> Inr (kernel_matrix (polynomial_kernel deg v c0) X1 X2))
      | SigmoidKernel c0 g \<Rightarrow>
          (case gamma_number g X1 of
             Inl e \<Rightarrow> Inl e
           | Inr v \<Rightarrow> Inr (kernel_matrix (sigmoid_kernel c0 v) X1 X2)))"

record SVM_args =
  sa_C :: real
  sa_kernel :: string
  sa_gamma :: gamma_value
  sa_coef0 :: real
  sa_degree :: nat
  sa_pred_size :: int
  sa_random_state :: "int option"

record SVM =
  svm_X_train :: matrix
  svm_n_features :: nat
  svm_gamma :: gamma_value
  svm_kernel_func :: kernel_callable
  svm_ovr :: "BinarySVM OneVsRestClassifier"

text \<open>\<^verbatim>\<open>X.var()\<close>: the population variance of all entries; \<open>None\<close> is the \<open>nan\<close> of an
  array without entries.\<close>

definition np_var :: "matrix \<Rightarrow> real option" where
  "np_var X =
     (let xs = concat X; n = length xs
      in if n = 0 then None
         else
           (let mu = sum_list xs / real n
            in Some (sum_list (map (\<lambda>v. (v - mu)\<^sup>2) xs) / real n)))"

text \<open>
  \<^verbatim>\<open>SVM._compute_gamma\<close>. numpy's float division by zero gives \<open>inf\<close> (or \<open>nan\<close>)
  and a warning; Python's own \<^verbatim>\<open>1.0 / 0\<close> raises.
\<close>

definition compute_gamma :: "gamma_value \<Rightarrow> nat \<Rightarrow> matrix \<Rightarrow> error + gamma_value" where
  "compute_gamma g nf X =
     (if g = GammaStr ''scale'' then
        (case np_var X of
           None \<Rightarrow> Inr GammaNonFinite
         | Some v \<Rightarrow>
             if real nf * v = 0 then Inr GammaNonFinite
             else Inr (GammaNum (1 / (real nf * v))))
      else if g = GammaNone then
        (if nf = 0 then Inl ZeroDivisionError else Inr (GammaNum (1 / real nf)))
      else Inr g)"

text \<open>\<^verbatim>\<open>SVM._create_kernel_callable\<close>: the resolved \<^verbatim>\<open>gamma_\<close> and the callable.\<close>

definition create_kernel_callable ::
  "SVM_args \<Rightarrow> nat \<Rightarrow> matrix \<Rightarrow> error + gamma_value \<times> kernel_callable" where
  "create_kernel_callable a nf X =
     (if sa_kernel a \<notin> set [''rbf'', ''poly'', ''sigmoid'', ''linear''] then Inl AssertionError
      else if sa_kernel a = ''rbf'' then
        (case compute_gamma (sa_gamma a) nf X of
           Inl e \<Rightarrow> Inl e
         | Inr g \<Rightarrow> Inr (g, RbfKernel g))
      else if sa_kernel a = ''poly'' then
        (case compute_gamma (sa_gamma a) nf X of
           Inl e \<Rightarrow> Inl e
         | Inr g \<Rightarrow> Inr (g, PolyKernel (sa_degree a) g (sa_coef0 a)))
      else if sa_kernel a = ''sigmoid'' then
        (case compute_gamma (sa_gamma a) nf X of
           Inl e \<Rightarrow> Inl e
         | Inr g \<Rightarrow> Inr (g, SigmoidKernel (sa_coef0 a) g))
      else Inr (sa_gamma a, LinearKernel))"

text \<open>
  \<^verbatim>\<open>SVM.fit\<close>. \<^verbatim>\<open>OneVsRestClassifier(estimator).fit(X, y)\<close> is sklearn's: a function
  from the prototype estimator's constructor arguments and the data to the fitted ensemble.
\<close>

type_synonym OvR_fit =
  "kernel_callable BinarySVM_args \<Rightarrow> matrix \<Rightarrow> int list \<Rightarrow> error + BinarySVM OneVsRestClassifier"

definition SVM_fit :: "OvR_fit \<Rightarrow> SVM_args \<Rightarrow> matrix \<Rightarrow> int list \<Rightarrow> error + SVM" where
  "SVM_fit ovr_fit a X y =
     (case create_kernel_callable a (n_cols X) X of
        Inl e \<Rightarrow> Inl e
      | Inr (g, kf) \<Rightarrow>
          (case ovr_fit \<lparr>arg_C = sa_C a, arg_kernel = sa_kernel a, arg_gamma = g,
                         arg_coef0 = sa_coef0 a, arg_degree = sa_degree a, arg_kernel_func = kf,
                         arg_pred_size = sa_pred_size a,
                         arg_random_state = sa_random_state a\<rparr> X y of
             Inl e \<Rightarrow> Inl e
           | Inr fitted_ovr \<Rightarrow>
               Inr \<lparr>svm_X_train = X, svm_n_features = n_cols X, svm_gamma = g,
                    svm_kernel_func = kf, svm_ovr = fitted_ovr\<rparr>))"

text \<open>\<^verbatim>\<open>SVM.similarity(X, train_indices=None)\<close>.\<close>

definition SVM_similarity :: "SVM \<Rightarrow> matrix \<Rightarrow> nat list option \<Rightarrow> error + matrix" where
  "SVM_similarity s X train_indices =
     (case train_indices of
        None \<Rightarrow> call_kernel (svm_kernel_func s) X (svm_X_train s)
      | Some idx \<Rightarrow>
          (case take_rows (svm_X_train s) idx of
             Inl e \<Rightarrow> Inl e
           | Inr T \<Rightarrow> call_kernel (svm_kernel_func s) X T))"

text \<open>
  Python's \<^verbatim>\<open>xs[i]\<close> on a list: it resolves the index against the length (a negative
  index counts from the end) or raises IndexError.
\<close>

definition py_index :: "nat \<Rightarrow> int \<Rightarrow> error + nat" where
  "py_index n i =
     (let j = (if i < 0 then int n + i else i)
      in if 0 \<le> j \<and> j < int n then Inr (nat j) else Inl IndexError)"

definition py_getitem :: "'a list \<Rightarrow> int \<Rightarrow> error + 'a" where
  "py_getitem xs i = (case py_index (length xs) i of Inl e \<Rightarrow> Inl e | Inr j \<Rightarrow> Inr (xs ! j))"

text \<open>
  \<^verbatim>\<open>scipy.sparse.vstack\<close> of one-row matrices: it refuses an empty list and rows of
  different widths.
\<close>

definition sps_vstack :: "csr_row list \<Rightarrow> error + csr_row list" where
  "sps_vstack rs =
     (case rs of
        [] \<Rightarrow> Inl ValueError
      | r # rest \<Rightarrow> if list_all (\<lambda>t. width t = width r) rest then Inr rs else Inl ValueError)"

definition csr_neg :: "csr_row \<Rightarrow> csr_row" where
  "csr_neg r = r\<lparr>data := map uminus (data r)\<rparr>"

text \<open>
  \<^verbatim>\<open>result[np.where(y == 0)] *= -1\<close> for an array \<open>y\<close> with one label per row of the
  result: exactly the rows whose label is 0 change sign.
\<close>

definition negate_where_zero :: "('r \<Rightarrow> 'r) \<Rightarrow> int list \<Rightarrow> 'r list \<Rightarrow> 'r list" where
  "negate_where_zero neg y R = map2 (\<lambda>l r. if l = 0 then neg r else r) y R"

text \<open>
  \<^verbatim>\<open>SVM.explain(X, y=None)\<close>. The list comprehension runs over the row numbers in order;
  \<^verbatim>\<open>X[[i]]\<close> is the one-row matrix of row \<open>i\<close>.
\<close>

definition SVM_explain :: "SVM \<Rightarrow> matrix \<Rightarrow> int list option \<Rightarrow> error + csr_row list" where
  "SVM_explain s X y_arg =
     (case (case y_arg of None \<Rightarrow> ovr_predict (svm_ovr s) X | Some y \<Rightarrow> Inr y) of
        Inl e \<Rightarrow> Inl e
      | Inr y \<Rightarrow>
          if length y \<noteq> length X then Inl AssertionError
          else if length (estimators (svm_ovr s)) > 1 then
            (case map_err
                    (\<lambda>i. case py_getitem (estimators (svm_ovr s)) (y ! i) of
                            Inl e \<Rightarrow> Inl e
                          | Inr est \<Rightarrow> explain est [X ! i])
                    [0..<length X] of
               Inl e \<Rightarrow> Inl e
             | Inr rows \<Rightarrow> sps_vstack rows)
          else
            (case map_err
                    (\<lambda>i. case py_getitem (estimators (svm_ovr s)) 0 of
                            Inl e \<Rightarrow> Inl e
                          | Inr est \<Rightarrow> explain est [X ! i])
                    [0..<length X] of
               Inl e \<Rightarrow> Inl e
             | Inr rows \<Rightarrow>
                 (case sps_vstack rows of
                    Inl e \<Rightarrow> Inl e
                  | Inr R \<Rightarrow> Inr (negate_where_zero csr_neg y R))))"

section \<open>The dual-solver adapter\<close>

text \<open>
  \<^verbatim>\<open>trex/models/liblinear_util.py\<close> reads and writes text files. A text file is the list
  of its lines as \<^verbatim>\<open>readlines()\<close> returns them (each with its line end); a path that
  names no file is \<open>None\<close>. Characters are code points below 256.
\<close>

type_synonym text_file = "string list"

text \<open>\<^verbatim>\<open>str.isspace\<close>, the characters \<^verbatim>\<open>str.strip()\<close> removes.\<close>

definition isspace :: "char \<Rightarrow> bool" where
  "isspace c \<longleftrightarrow>
     (let n = (of_char c :: nat)
      in (9 \<le> n \<and> n \<le> 13) \<or> (28 \<le> n \<and> n \<le> 32) \<or> n = 133 \<or> n = 160)"

definition py_strip :: "string \<Rightarrow> string" where
  "py_strip s = rev (dropWhile isspace (rev (dropWhile isspace s)))"

definition startswith :: "string \<Rightarrow> string \<Rightarrow> bool" where
  "startswith p s \<longleftrightarrow> take (length p) s = p"

text \<open>\<^verbatim>\<open>s.split(c)\<close> for a one-character separator: every occurrence separates.\<close>

fun split_on :: "char \<Rightarrow> string \<Rightarrow> string list" where
  "split_on c [] = [[]]"
| "split_on c (x # xs) =
     (if x = c then [] # split_on c xs
      else (case split_on c xs of [] \<Rightarrow> [[x]] | t # ts \<Rightarrow> (x # t) # ts))"

text \<open>\<^verbatim>\<open>xs[k]\<close> for a non-negative constant \<open>k\<close>.\<close>

definition item :: "'a list \<Rightarrow> nat \<Rightarrow> error + 'a" where
  "item xs k = (if k < length xs then Inr (xs ! k) else Inl IndexError)"

text \<open>The slice \<^verbatim>\<open>xs[lo:hi]\<close> with integer bounds.\<close>

definition slice_bound :: "nat \<Rightarrow> int \<Rightarrow> nat" where
  "slice_bound n k = (if k < 0 then nat (max 0 (int n + k)) else min (nat k) n)"

definition py_slice :: "int \<Rightarrow> int \<Rightarrow> 'a list \<Rightarrow> 'a list" where
  "py_slice lo hi xs =
     (let a = slice_bound (length xs) lo; b = slice_bound (length xs) hi
      in take (b - a) (drop a xs))"

text \<open>
  Python's \<^verbatim>\<open>int(s)\<close> and \<^verbatim>\<open>float(s)\<close> on decimal literals: surrounding white space,
  an optional sign, digits with single underscores between them; for \<^verbatim>\<open>float\<close> also a
  fraction and an exponent. The value of a float literal is taken as the real number it
  denotes, also where the float of Python rounds it or overflows to \<^verbatim>\<open>inf\<close>. The literals \<^verbatim>\<open>inf\<close> and \<^verbatim>\<open>nan\<close> denote no real number and are
  \<open>OutsideReals\<close>; any other string is a ValueError.
\<close>

definition is_digit :: "char \<Rightarrow> bool" where
  "is_digit c \<longleftrightarrow> (48::nat) \<le> of_char c \<and> (of_char c :: nat) \<le> 57"

fun no_double_underscore :: "string \<Rightarrow> bool" where
  "no_double_underscore (a # b # r) =
     (\<not> (a = CHR ''_'' \<and> b = CHR ''_'') \<and> no_double_underscore (b # r))"
| "no_double_underscore r = True"

definition valid_digits :: "string \<Rightarrow> bool" where
  "valid_digits s \<longleftrightarrow>
     s \<noteq> [] \<and> is_digit (hd s) \<and> is_digit (last s) \<and>
     list_all (\<lambda>c. is_digit c \<or> c = CHR ''_'') s \<and> no_double_underscore s"

definition digits_value :: "string \<Rightarrow> nat" where
  "digits_value s = foldl (\<lambda>acc c. 10 * acc + (of_char c - 48)) 0 (filter is_digit s)"

definition split_sign :: "string \<Rightarrow> int \<times> string" where
  "split_sign s =
     (case s of
        [] \<Rightarrow> (1, [])
      | c # r \<Rightarrow> if c = CHR ''-'' then (-1, r) else if c = CHR ''+'' then (1, r) else (1, s))"

definition py_int :: "string \<Rightarrow> error + int" where
  "py_int s =
     (case split_sign (py_strip s) of
        (sg, body) \<Rightarrow> if valid_digits body then Inr (sg * int (digits_value body)) else Inl ValueError)"

definition lower_ascii :: "char \<Rightarrow> char" where
  "lower_ascii c =
     (if (65::nat) \<le> of_char c \<and> (of_char c :: nat) \<le> 90 then char_of (of_char c + (32::nat)) else c)"

definition is_exp_mark :: "char \<Rightarrow> bool" where
  "is_exp_mark c \<longleftrightarrow> c = CHR ''e'' \<or> c = CHR ''E''"

definition py_float :: "string \<Rightarrow> error + real" where
  "py_float s =
     (case split_sign (py_strip s) of
        (sg, body) \<Rightarrow>
          if map lower_ascii body \<in> set [''inf'', ''infinity'', ''nan''] then Inl OutsideReals
          else
            (let mant = takeWhile (\<lambda>c. \<not> is_exp_mark c) body;
                 rest = dropWhile (\<lambda>c. \<not> is_exp_mark c) body;
                 ip = takeWhile (\<lambda>c. c \<noteq> CHR ''.'') mant;
                 fp = drop 1 (dropWhile (\<lambda>c. c \<noteq> CHR ''.'') mant);
                 ex = split_sign (drop 1 rest)
             in if (ip = [] \<and> fp = []) \<or> \<not> (ip = [] \<or> valid_digits ip) \<or>
                   \<not> (fp = [] \<or> valid_digits fp) \<or> \<not> (rest = [] \<or> valid_digits (snd ex))
                then Inl ValueError
                else
                  (let m = real (digits_value ip) +
                           real (digits_value fp) / 10 ^ length (filter is_digit fp);
                       k = (if rest = [] then 0 else fst ex * int (digits_value (snd ex)))
                   in Inr (real_of_int sg * (if 0 \<le> k then m * 10 ^ nat k else m / 10 ^ nat (- k))))))"

text \<open>
  \<^verbatim>\<open>create_data_file\<close> hands the matrix and the labels to sklearn's
  \<^verbatim>\<open>dump_svmlight_file\<close>, which refuses a label vector of another length. The
  written file is kept as the data it encodes.
\<close>

datatype data_file = SvmlightFile matrix "int list"

definition create_data_file :: "matrix \<Rightarrow> int list \<Rightarrow> error + data_file" where
  "create_data_file X y = (if length X = length y then Inr (SvmlightFile X y) else Inl ValueError)"

text \<open>
  The two liblinear executables are external: \<open>run_train s c d\<close> stands for
  \<^verbatim>\<open>train -s s -B 0 -c c\<close> on the data file \<open>d\<close> and \<open>run_predict b d m\<close> for
  \<^verbatim>\<open>predict -b b\<close> on the data file and the model file. Each gives the exit status
  that \<^verbatim>\<open>os.system\<close> returns and the file it wrote, if any.
\<close>

record liblinear =
  run_train :: "nat \<Rightarrow> real \<Rightarrow> data_file \<Rightarrow> int \<times> text_file option"
  run_predict :: "nat \<Rightarrow> data_file \<Rightarrow> text_file option \<Rightarrow> int \<times> text_file option"

definition train_linear_svc :: "liblinear \<Rightarrow> data_file \<Rightarrow> real \<Rightarrow> error + text_file option" where
  "train_linear_svc ext data_file C =
     (case run_train ext 1 C data_file of
        (result, model_file) \<Rightarrow> if result = 0 then Inr model_file else Inl AssertionError)"

definition train_lr :: "liblinear \<Rightarrow> data_file \<Rightarrow> real \<Rightarrow> error + text_file option" where
  "train_lr ext data_file C =
     (case run_train ext 7 C data_file of
        (result, model_file) \<Rightarrow> if result = 0 then Inr model_file else Inl AssertionError)"

definition predict_linear_svc ::
  "liblinear \<Rightarrow> data_file \<Rightarrow> text_file option \<Rightarrow> error + text_file option" where
  "predict_linear_svc ext data_file model_file =
     (case run_predict ext 0 data_file model_file of
        (result, prediction_file) \<Rightarrow> if result = 0 then Inr prediction_file else Inl AssertionError)"

definition predict_lr ::
  "liblinear \<Rightarrow> data_file \<Rightarrow> text_file option \<Rightarrow> error + text_file option" where
  "predict_lr ext data_file model_file =
     (case run_predict ext 1 data_file model_file of
        (result, prediction_file) \<Rightarrow> if result = 0 then Inr prediction_file else Inl AssertionError)"

text \<open>
  The local variables of \<^verbatim>\<open>parse_model_file\<close> that its loop assigns; \<open>None\<close> is a
  variable not yet bound, except for \<^verbatim>\<open>alpha\<close>, which starts as Python's
  \<^verbatim>\<open>None\<close>. (\<^verbatim>\<open>bias\<close> is never assigned again.)
\<close>

record model_locals =
  l_nr_feature :: "int option"
  l_w :: "vec option"
  l_nr_sample :: "int option"
  l_alpha :: "vec option"

definition solver_types :: "string list" where
  "solver_types = [''L2R_LR_DUAL'', ''L2R_L2LOSS_SVC_DUAL'']"

text \<open>The body of the loop \<^verbatim>\<open>for i, line in enumerate(lines)\<close>.\<close>

definition model_line :: "text_file \<Rightarrow> nat \<Rightarrow> model_locals \<Rightarrow> error + model_locals" where
  "model_line lines i st =
     (let line = py_strip (lines ! i); toks = split_on (CHR '' '') line
      in if startswith ''solver_type'' line then
           (case item toks 1 of
              Inl e \<Rightarrow> Inl e
            | Inr t \<Rightarrow> if t \<in> set solver_types then Inr st else Inl AssertionError)
         else if startswith ''nr_class'' line then
           (case item toks 1 of
              Inl e \<Rightarrow> Inl e
            | Inr t \<Rightarrow> if t = ''2'' then Inr st else Inl AssertionError)
         else if startswith ''label'' line then
           (case item toks 1 of
              Inl e \<Rightarrow> Inl e
            | Inr t1 \<Rightarrow>
                if t1 \<noteq> ''1'' then Inl AssertionError
                else
                  (case item toks 2 of
                     Inl e \<Rightarrow> Inl e
                   | Inr t2 \<Rightarrow>
                       if t2 = ''0'' \<or> t2 = ''-1'' then Inr st else Inl AssertionError))
         else if startswith ''nr_feature'' line then
           (case item toks 1 of
              Inl e \<Rightarrow> Inl e
            | Inr t \<Rightarrow>
                (case py_int t of
                   Inl e \<Rightarrow> Inl e
                 | Inr n \<Rightarrow> Inr (st\<lparr>l_nr_feature := Some n\<rparr>)))
         else if startswith ''bias'' line then Inr st
         else if startswith ''w'' line then
           (case l_nr_feature st of
              None \<Rightarrow> Inl UnboundLocalError
            | Some nf \<Rightarrow>
                (case map_err (\<lambda>x. py_float (py_strip x))
                        (py_slice (int i + 1) (int i + nf) lines) of
                   Inl e \<Rightarrow> Inl e
                 | Inr ws \<Rightarrow> Inr (st\<lparr>l_w := Some ws\<rparr>)))
         else if startswith ''nr_sample'' line then
           (case item toks 1 of
              Inl e \<Rightarrow> Inl e
            | Inr t \<Rightarrow>
                (case py_int t of
                   Inl e \<Rightarrow> Inl e
                 | Inr n \<Rightarrow> Inr (st\<lparr>l_nr_sample := Some n\<rparr>)))
         else if startswith ''alpha'' line then
           (case item lines (i + 1) of
              Inl e \<Rightarrow> Inl e
            | Inr nxt \<Rightarrow>
                (case map_err py_float (split_on (CHR '' '') (py_strip nxt)) of
                   Inl e \<Rightarrow> Inl e
                 | Inr al \<Rightarrow>
                     (case l_nr_sample st of
                        None \<Rightarrow> Inl UnboundLocalError
                      | Some ns \<Rightarrow>
                          if int (length al) = ns then Inr (st\<lparr>l_alpha := Some al\<rparr>)
                          else Inl AssertionError)))
         else Inr st)"

fun model_loop :: "text_file \<Rightarrow> nat list \<Rightarrow> model_locals \<Rightarrow> error + model_locals" where
  "model_loop lines [] st = Inr st"
| "model_loop lines (i # is) st =
     (case model_line lines i st of
        Inl e \<Rightarrow> Inl e
      | Inr st' \<Rightarrow> model_loop lines is st')"

text \<open>
  \<^verbatim>\<open>parse_model_file\<close>: the result \<^verbatim>\<open>np.array(alpha)\<close> is the coefficient vector, or
  the array of \<^verbatim>\<open>None\<close> (here \<open>None\<close>) when no branch assigned \<^verbatim>\<open>alpha\<close>.
\<close>

definition parse_model_file :: "text_file option \<Rightarrow> error + vec option" where
  "parse_model_file model_file =
     (case model_file of
        None \<Rightarrow> Inl AssertionError
      | Some lines \<Rightarrow>
          (case model_loop lines [0..<length lines]
                  \<lparr>l_nr_feature = None, l_w = None, l_nr_sample = None, l_alpha = None\<rparr> of
             Inl e \<Rightarrow> Inl e
           | Inr st \<Rightarrow> Inr (l_alpha st)))"

text \<open>\<^verbatim>\<open>np.where(pred_label == -1, 0, 1)\<close>.\<close>

definition minus_to_zero :: "int list \<Rightarrow> int list" where
  "minus_to_zero pred_label = map (\<lambda>l. if l = - 1 then 0 else 1) pred_label"

definition parse_linear_svc_predictions :: "text_file option \<Rightarrow> bool \<Rightarrow> error + int list" where
  "parse_linear_svc_predictions prediction_file minus_to_zeros =
     (case prediction_file of
        None \<Rightarrow> Inl AssertionError
      | Some lines \<Rightarrow>
          (case map_err (\<lambda>p_str. py_int (py_strip p_str)) lines of
             Inl e \<Rightarrow> Inl e
           | Inr pred_label \<Rightarrow>
               Inr (if minus_to_zeros then minus_to_zero pred_label else pred_label)))"

text \<open>One pass of the loop of \<^verbatim>\<open>parse_lr_predictions\<close>: the label and the row
  \<^verbatim>\<open>[proba_0, proba_1]\<close> of one line.\<close>

definition prediction_line :: "string \<Rightarrow> error + int \<times> vec" where
  "prediction_line p_str =
     (let items = split_on (CHR '' '') (py_strip p_str)
      in case item items 0 of
           Inl e \<Rightarrow> Inl e
         | Inr i0 \<Rightarrow>
             (case py_int i0 of
                Inl e \<Rightarrow> Inl e
              | Inr l \<Rightarrow>
                  (case item items 1 of
                     Inl e \<Rightarrow> Inl e
                   | Inr i1 \<Rightarrow>
                       (case py_float i1 of
                          Inl e \<Rightarrow> Inl e
                        | Inr p1 \<Rightarrow>
                            (case item items 2 of
                               Inl e \<Rightarrow> Inl e
                             | Inr i2 \<Rightarrow>
                                 (case py_float i2 of
                                    Inl e \<Rightarrow> Inl e
                                  | Inr p0 \<Rightarrow> Inr (l, [p0, p1])))))))"

definition parse_lr_predictions :: "text_file option \<Rightarrow> bool \<Rightarrow> error + int list \<times> matrix" where
  "parse_lr_predictions prediction_file minus_to_zeros =
     (case prediction_file of
        None \<Rightarrow> Inl AssertionError
      | Some lines \<Rightarrow>
          (case item lines 0 of
             Inl e \<Rightarrow> Inl e
           | Inr header \<Rightarrow>
               if \<not> (header = ''labels 1 -1\<newline>'' \<or> header = ''labels 1 0\<newline>'')
               then Inl AssertionError
               else
                 (case map_err prediction_line (drop 1 lines) of
                    Inl e \<Rightarrow> Inl e
                  | Inr rows \<Rightarrow>
                      Inr (if minus_to_zeros then minus_to_zero (map fst rows) else map fst rows,
                           map snd rows))))"

section \<open>The binary kernel logistic-regression estimator\<close>

text \<open>
  The state of a \<^verbatim>\<open>BinaryKernelLogisticRegression\<close>: the training matrix, the dense
  dual coefficients \<^verbatim>\<open>coef_\<close>, and the constructor arguments \<^verbatim>\<open>C\<close> and
  \<^verbatim>\<open>pred_size\<close> (\<^verbatim>\<open>temp_dir\<close> only names where the files of one \<^verbatim>\<open>fit\<close> live).
\<close>

record BinaryKernelLogisticRegression =
  klr_X_train :: matrix
  klr_coef :: vec
  klr_C :: real
  klr_pred_size :: int

definition sigmoid :: "real \<Rightarrow> real" where
  "sigmoid z = 1 / (1 + exp (- z))"

text \<open>
  One pass of the loop body of \<^verbatim>\<open>predict_proba\<close>:
  \<^verbatim>\<open>self._sigmoid(np.sum(linear_kernel(B, X_train_) * coef_, axis=1))\<close>.
\<close>

definition klr_block_proba :: "BinaryKernelLogisticRegression \<Rightarrow> matrix \<Rightarrow> error + vec" where
  "klr_block_proba k B =
     (case map_err (\<lambda>r. bmul r (klr_coef k)) (kernel_matrix linear_kernel B (klr_X_train k)) of
        Inl e \<Rightarrow> Inl e
      | Inr P \<Rightarrow> Inr (map (\<lambda>r. sigmoid (sum_list r)) P))"

text \<open>\<^verbatim>\<open>predict_proba\<close>: the positive probabilities of all blocks, then one row
  \<^verbatim>\<open>[1 - p, p]\<close> per query.\<close>

definition klr_pos_proba :: "BinaryKernelLogisticRegression \<Rightarrow> matrix \<Rightarrow> error + vec" where
  "klr_pos_proba k X =
     (if klr_pred_size k = 0 then Inl ValueError
      else
        (case block_loop (klr_block_proba k) X (nat (klr_pred_size k)) 0 of
           Inl e \<Rightarrow> Inl e
         | Inr ps \<Rightarrow> if ps = [] then Inl ValueError else Inr (concat ps)))"

definition klr_predict_proba :: "BinaryKernelLogisticRegression \<Rightarrow> matrix \<Rightarrow> error + matrix" where
  "klr_predict_proba k X =
     (case klr_pos_proba k X of
        Inl e \<Rightarrow> Inl e
      | Inr pos_proba \<Rightarrow> Inr (map (\<lambda>p. [1 - p, p]) pos_proba))"

text \<open>\<^verbatim>\<open>predict\<close>: \<^verbatim>\<open>np.argmax\<close> along each row takes the first maximum.\<close>

definition klr_predict :: "BinaryKernelLogisticRegression \<Rightarrow> matrix \<Rightarrow> error + int list" where
  "klr_predict k X =
     (case klr_pos_proba k X of
        Inl e \<Rightarrow> Inl e
      | Inr pos_proba \<Rightarrow> Inr (map (\<lambda>p. if p > 1 - p then 1 else 0) pos_proba))"

definition klr_get_weight :: "BinaryKernelLogisticRegression \<Rightarrow> vec" where
  "klr_get_weight k = klr_coef k"

definition klr_explain :: "BinaryKernelLogisticRegression \<Rightarrow> matrix \<Rightarrow> error + matrix" where
  "klr_explain k x =
     (if \<not> (length x = 1 \<and> n_cols x = n_cols (klr_X_train k)) then Inl AssertionError
      else map_err (\<lambda>r. bmul r (klr_coef k)) (kernel_matrix linear_kernel x (klr_X_train k)))"

definition klr_fitted :: "BinaryKernelLogisticRegression \<Rightarrow> bool" where
  "klr_fitted k \<longleftrightarrow> length (klr_coef k) = length (klr_X_train k) \<and> 1 \<le> klr_pred_size k"

text \<open>
  \<^verbatim>\<open>BinaryKernelLogisticRegression.fit\<close> reaches the adapter through attributes of the
  module \<^verbatim>\<open>liblinear_util\<close>. The record has one field for each attribute name that
  \<^verbatim>\<open>fit\<close> reads: the function bound to the name, or \<open>None\<close> when the module binds no
  such name, in which case the attribute access raises AttributeError.
\<close>

record liblinear_util_module =
  attr_create_data_file :: "(matrix \<Rightarrow> int list \<Rightarrow> error + data_file) option"
  attr_train_model :: "(data_file \<Rightarrow> real \<Rightarrow> error + text_file option) option"
  attr_parse_model_file :: "(text_file option \<Rightarrow> error + vec option) option"
  attr_predict :: "(data_file \<Rightarrow> text_file option \<Rightarrow> error + text_file option) option"
  attr_parse_prediction_file ::
    "(text_file option \<Rightarrow> bool \<Rightarrow> error + int list \<times> matrix) option"

text \<open>
  The module as \<^verbatim>\<open>liblinear_util.py\<close> defines it. Its functions are
  \<^verbatim>\<open>create_data_file\<close>, \<^verbatim>\<open>train_linear_svc\<close>, \<^verbatim>\<open>train_lr\<close>,
  \<^verbatim>\<open>predict_linear_svc\<close>, \<^verbatim>\<open>predict_lr\<close>, \<^verbatim>\<open>parse_model_file\<close>,
  \<^verbatim>\<open>parse_linear_svc_predictions\<close> and \<^verbatim>\<open>parse_lr_predictions\<close>: none is named
  \<^verbatim>\<open>train_model\<close>, \<^verbatim>\<open>predict\<close> or \<^verbatim>\<open>parse_prediction_file\<close>.
\<close>

definition liblinear_util :: liblinear_util_module where
  "liblinear_util =
     \<lparr>attr_create_data_file = Some create_data_file,
      attr_train_model = None,
      attr_parse_model_file = Some parse_model_file,
      attr_predict = None,
      attr_parse_prediction_file = None\<rparr>"

text \<open>
  The module with the three missing names bound to the functions of the dual
  logistic-regression path, for comparison.
\<close>

definition liblinear_util_lr :: "liblinear \<Rightarrow> liblinear_util_module" where
  "liblinear_util_lr ext =
     \<lparr>attr_create_data_file = Some create_data_file,
      attr_train_model = Some (train_lr ext),
      attr_parse_model_file = Some parse_model_file,
      attr_predict = Some (predict_lr ext),
      attr_parse_prediction_file = Some parse_lr_predictions\<rparr>"

definition getattr :: "'f option \<Rightarrow> error + 'f" where
  "getattr a = (case a of None \<Rightarrow> Inl AttributeError | Some f \<Rightarrow> Inr f)"

text \<open>\<^verbatim>\<open>np.unique(y)\<close>: the sorted distinct labels.\<close>

definition np_unique :: "int list \<Rightarrow> int list" where
  "np_unique y = sort (remdups y)"

text \<open>
  \<^verbatim>\<open>BinaryKernelLogisticRegression.fit(X, y, n_check, atol)\<close> with the constructor
  arguments \<open>C\<close> and \<open>pred_size\<close>. The temporary directory is removed and created anew
  first, so the three files are those this call writes. An array of \<^verbatim>\<open>None\<close> for
  \<^verbatim>\<open>coef_\<close> makes the first product with it a TypeError.
\<close>

definition BinaryKernelLogisticRegression_fit ::
  "liblinear_util_module \<Rightarrow> real \<Rightarrow> int \<Rightarrow> matrix \<Rightarrow> int list \<Rightarrow> int \<Rightarrow> real \<Rightarrow>
     error + BinaryKernelLogisticRegression" where
  "BinaryKernelLogisticRegression_fit lib C ps X y n_check atol =
     (if length (np_unique y) \<noteq> 2 then Inl AssertionError
      else
        (let y_liblinear = map (\<lambda>l. if l = 0 then - 1 else 1) y
         in case getattr (attr_create_data_file lib) of
              Inl e \<Rightarrow> Inl e
            | Inr f_create \<Rightarrow>
           (case f_create X y_liblinear of
              Inl e \<Rightarrow> Inl e
            | Inr train_data \<Rightarrow>
           (case getattr (attr_train_model lib) of
              Inl e \<Rightarrow> Inl e
            | Inr f_train \<Rightarrow>
           (case f_train train_data C of
              Inl e \<Rightarrow> Inl e
            | Inr model \<Rightarrow>
           (case getattr (attr_parse_model_file lib) of
              Inl e \<Rightarrow> Inl e
            | Inr f_parse_model \<Rightarrow>
           (case f_parse_model model of
              Inl e \<Rightarrow> Inl e
            | Inr coef_array \<Rightarrow>
           (case getattr (attr_predict lib) of
              Inl e \<Rightarrow> Inl e
            | Inr f_predict \<Rightarrow>
           (case f_predict train_data model of
              Inl e \<Rightarrow> Inl e
            | Inr prediction \<Rightarrow>
           (case getattr (attr_parse_prediction_file lib) of
              Inl e \<Rightarrow> Inl e
            | Inr f_parse_prediction \<Rightarrow>
           (case f_parse_prediction prediction True of
              Inl e \<Rightarrow> Inl e
            | Inr (pred_label, pred_proba) \<Rightarrow>
           (case coef_array of
              None \<Rightarrow> Inl TypeError
            | Some c \<Rightarrow>
           (let self = \<lparr>klr_X_train = X, klr_coef = c, klr_C = C, klr_pred_size = ps\<rparr>
            in case klr_predict self (py_prefix n_check X) of
                 Inl e \<Rightarrow> Inl e
               | Inr q \<Rightarrow>
              (case np_allclose default_atol (map real_of_int (py_prefix n_check pred_label))
                      (map real_of_int q) of
                 Inl e \<Rightarrow> Inl e
               | Inr ok1 \<Rightarrow>
                   if \<not> ok1 then Inl AssertionError
                   else
                     (case klr_predict_proba self (py_prefix n_check X) of
                        Inl e \<Rightarrow> Inl e
                      | Inr P \<Rightarrow>
                          (case np_allclose atol (py_prefix (n_check * 2) (concat pred_proba))
                                  (concat P) of
                             Inl e \<Rightarrow> Inl e
                           | Inr ok2 \<Rightarrow>
                               if \<not> ok2 then Inl AssertionError else Inr self))))))))))))))))"

section \<open>The multiclass kernel logistic-regression dispatcher\<close>

record KernelLogisticRegression =
  mklr_X_train :: matrix
  mklr_n_features :: nat
  mklr_n_classes :: nat
  mklr_ovr :: "BinaryKernelLogisticRegression OneVsRestClassifier"
  mklr_coef :: matrix

definition KLR_similarity :: "KernelLogisticRegression \<Rightarrow> matrix \<Rightarrow> nat list option \<Rightarrow> error + matrix" where
  "KLR_similarity s X train_indices =
     (case train_indices of
        None \<Rightarrow> Inr (kernel_matrix linear_kernel X (mklr_X_train s))
      | Some idx \<Rightarrow>
          (case take_rows (mklr_X_train s) idx of
             Inl e \<Rightarrow> Inl e
           | Inr T \<Rightarrow> Inr (kernel_matrix linear_kernel X T)))"

text \<open>\<^verbatim>\<open>np.vstack\<close> of 2-d arrays: it refuses an empty list and blocks of different
  widths.\<close>

definition np_vstack :: "matrix list \<Rightarrow> error + matrix" where
  "np_vstack bs =
     (case bs of
        [] \<Rightarrow> Inl ValueError
      | b # rest \<Rightarrow>
          if list_all (\<lambda>t. n_cols t = n_cols b) rest then Inr (concat bs) else Inl ValueError)"

text \<open>\<^verbatim>\<open>KernelLogisticRegression.explain(X, y=None)\<close>.\<close>

definition KLR_explain ::
  "KernelLogisticRegression \<Rightarrow> matrix \<Rightarrow> int list option \<Rightarrow> error + matrix" where
  "KLR_explain s X y_arg =
     (case (case y_arg of None \<Rightarrow> ovr_predict (mklr_ovr s) X | Some y \<Rightarrow> Inr y) of
        Inl e \<Rightarrow> Inl e
      | Inr y \<Rightarrow>
          if length y \<noteq> length X then Inl AssertionError
          else if length (estimators (mklr_ovr s)) > 1 then
            (case map_err
                    (\<lambda>i. case py_getitem (estimators (mklr_ovr s)) (y ! i) of
                            Inl e \<Rightarrow> Inl e
                          | Inr est \<Rightarrow> klr_explain est [X ! i])
                    [0..<length X] of
               Inl e \<Rightarrow> Inl e
             | Inr blocks \<Rightarrow> np_vstack blocks)
          else
            (case map_err
                    (\<lambda>i. case py_getitem (estimators (mklr_ovr s)) 0 of
                            Inl e \<Rightarrow> Inl e
                          | Inr est \<Rightarrow> klr_explain est [X ! i])
                    [0..<length X] of
               Inl e \<Rightarrow> Inl e
             | Inr blocks \<Rightarrow>
                 (case np_vstack blocks of
                    Inl e \<Rightarrow> Inl e
                  | Inr R \<Rightarrow> Inr (negate_where_zero (map uminus) y R))))"

text \<open>
  Whether indexing the estimator list by the label value, as the multiclass branch of
  \<^verbatim>\<open>explain\<close> does, takes every class label to the estimator of its own class: the
  estimator of the \<open>k\<close>-th label of \<^verbatim>\<open>classes_\<close> is the \<open>k\<close>-th of the list.
\<close>

definition label_selects_own_estimator :: "int list \<Rightarrow> bool" where
  "label_selects_own_estimator cls \<longleftrightarrow>
     list_all (\<lambda>k. py_index (length cls) (cls ! k) = Inr k) [0..<length cls]"

section \<open>Example estimators\<close>

text \<open>
  Small fitted estimators over three training points in the plane, with the linear kernel;
  the examples below run the operations on them.
\<close>

definition example_X :: matrix where
  "example_X = [[1, 0], [0, 1], [1, 1]]"

definition example_svm :: BinarySVM where
  "example_svm =
     \<lparr>X_train = example_X, n_features = 2, coef = [1 / 2, - (1 / 4)], coef_indices = [0, 2],
      intercept = 1 / 8, kernel_func = linear_kernel, pred_size = 2\<rparr>"

definition example_klr :: BinaryKernelLogisticRegression where
  "example_klr =
     \<lparr>klr_X_train = example_X, klr_coef = [1 / 2, - (1 / 4), 1], klr_C = 1, klr_pred_size = 2\<rparr>"

definition example_query :: matrix where
  "example_query = [[2, 3]]"

definition example_batch :: matrix where
  "example_batch = [[2, 3], [1, 1], [0, 4]]"

text \<open>sklearn's binary one-vs-rest prediction: the second class where the single
  estimator's decision value is positive.\<close>

definition example_SVM :: SVM where
  "example_SVM =
     \<lparr>svm_X_train = example_X, svm_n_features = 2, svm_gamma = GammaStr ''scale'',
      svm_kernel_func = LinearKernel,
      svm_ovr =
        \<lparr>estimators = [example_svm], classes = [0, 1],
         ovr_predict =
           (\<lambda>X. case decision_function example_svm X of
                  Inl e \<Rightarrow> Inl e
                | Inr d \<Rightarrow> Inr (map (\<lambda>v. if v > 0 then 1 else 0) d))\<rparr>\<rparr>"

definition example_KLR :: KernelLogisticRegression where
  "example_KLR =
     \<lparr>mklr_X_train = example_X, mklr_n_features = 2, mklr_n_classes = 2,
      mklr_ovr =
        \<lparr>estimators = [example_klr], classes = [0, 1],
         ovr_predict = klr_predict example_klr\<rparr>,
      mklr_coef = [klr_coef example_klr]\<rparr>"

text \<open>
  A three-class ensemble. sklearn's multiclass one-vs-rest prediction takes, for each query
  row, the label of \<^verbatim>\<open>classes_\<close> at the position of the estimator with the largest
  decision value (the first one among equals).
\<close>

definition example_svm_b :: BinarySVM where
  "example_svm_b =
     \<lparr>X_train = example_X, n_features = 2, coef = [1], coef_indices = [1],
      intercept = 0, kernel_func = linear_kernel, pred_size = 2\<rparr>"

definition example_svm_c :: BinarySVM where
  "example_svm_c =
     \<lparr>X_train = example_X, n_features = 2, coef = [2, 3], coef_indices = [0, 1],
      intercept = - 1, kernel_func = linear_kernel, pred_size = 2\<rparr>"

fun argmax_list :: "real list \<Rightarrow> nat" where
  "argmax_list (v # w # r) = (let j = argmax_list (w # r) in if v \<ge> (w # r) ! j then 0 else Suc j)"
| "argmax_list r = 0"

definition ovr_predict_multiclass :: "BinarySVM list \<Rightarrow> int list \<Rightarrow> matrix \<Rightarrow> error + int list" where
  "ovr_predict_multiclass ests cls X =
     (case map_err (\<lambda>est. decision_function est X) ests of
        Inl e \<Rightarrow> Inl e
      | Inr D \<Rightarrow> Inr (map (\<lambda>i. cls ! argmax_list (map (\<lambda>d. d ! i) D)) [0..<length X]))"

definition example_ovr3 :: "int list \<Rightarrow> BinarySVM OneVsRestClassifier" where
  "example_ovr3 cls =
     \<lparr>estimators = [example_svm, example_svm_b, example_svm_c], classes = cls,
      ovr_predict = ovr_predict_multiclass [example_svm, example_svm_b, example_svm_c] cls\<rparr>"

definition example_SVM3 :: "int list \<Rightarrow> SVM" where
  "example_SVM3 cls =
     \<lparr>svm_X_train = example_X, svm_n_features = 2, svm_gamma = GammaStr ''scale'',
      svm_kernel_func = LinearKernel, svm_ovr = example_ovr3 cls\<rparr>"

text \<open>
  A solver whose model has the dual form of \<open>example_svm\<close> and whose own outputs are
  those of that dual form, and one whose decision values are all zero.
\<close>

definition example_svc :: SVC where
  "example_svc a X y =
     Inr \<lparr>dual_coef = [[1 / 2, - (1 / 4)]], support = [0, 2], svc_intercept = [1 / 8],
          svc_predict = predict example_svm,
          svc_decision_function = decision_function example_svm\<rparr>"

definition example_svc_off :: SVC where
  "example_svc_off a X y =
     Inr \<lparr>dual_coef = [[1 / 2, - (1 / 4)]], support = [0, 2], svc_intercept = [1 / 8],
          svc_predict = predict example_svm,
          svc_decision_function = (\<lambda>Xs. Inr (map (\<lambda>r. 0) Xs))\<rparr>"

definition example_args :: "kernel BinarySVM_args" where
  "example_args =
     \<lparr>arg_C = 1, arg_kernel = ''linear'', arg_gamma = GammaStr ''scale'', arg_coef0 = 0,
      arg_degree = 3, arg_kernel_func = linear_kernel, arg_pred_size = 2,
      arg_random_state = None\<rparr>"

text \<open>A stand-in for sklearn's one-vs-rest fit that returns the three-class ensemble.\<close>

definition example_ovr_fit :: OvR_fit where
  "example_ovr_fit a X y = Inr (example_ovr3 (np_unique y))"

definition example_SVM_args :: "string \<Rightarrow> gamma_value \<Rightarrow> SVM_args" where
  "example_SVM_args k g =
     \<lparr>sa_C = 1, sa_kernel = k, sa_gamma = g, sa_coef0 = 0, sa_degree = 3, sa_pred_size = 500,
      sa_random_state = None\<rparr>"

section \<open>Example files\<close>

text \<open>
  A prediction file in the \<open>{1, 0}\<close> label convention (and the same in the signed
  convention), a model file of the dual logistic-regression solver with its alpha block, the
  same file declaring four samples for its three coefficients, and a model file as plain
  liblinear writes it, without an alpha block.
\<close>

definition example_prediction_file :: text_file where
  "example_prediction_file =
     [''labels 1 0\<newline>'', ''0 0.25 0.75\<newline>'', ''1 0.9 0.1\<newline>'']"

definition example_prediction_file_signed :: text_file where
  "example_prediction_file_signed =
     [''labels 1 -1\<newline>'', ''-1 0.25 0.75\<newline>'', ''1 0.9 0.1\<newline>'']"

definition example_model_file :: text_file where
  "example_model_file =
     [''solver_type L2R_LR_DUAL\<newline>'', ''nr_class 2\<newline>'', ''label 1 -1\<newline>'',
      ''nr_feature 2\<newline>'', ''bias 0\<newline>'', ''w\<newline>'', ''0.5\<newline>'',
      ''-0.25\<newline>'', ''nr_sample 3\<newline>'', ''alpha\<newline>'', ''0.5 0.25 1\<newline>'']"

definition example_model_file_mismatch :: text_file where
  "example_model_file_mismatch =
     [''solver_type L2R_LR_DUAL\<newline>'', ''nr_class 2\<newline>'', ''label 1 -1\<newline>'',
      ''nr_feature 2\<newline>'', ''bias 0\<newline>'', ''w\<newline>'', ''0.5\<newline>'',
      ''-0.25\<newline>'', ''nr_sample 4\<newline>'', ''alpha\<newline>'', ''0.5 0.25 1\<newline>'']"

definition example_model_file_no_alpha :: text_file where
  "example_model_file_no_alpha =
     [''solver_type L2R_LR_DUAL\<newline>'', ''nr_class 2\<newline>'', ''label 1 -1\<newline>'',
      ''nr_feature 2\<newline>'', ''bias 0\<newline>'', ''w\<newline>'', ''0.5\<newline>'',
      ''-0.25\<newline>'']"

section \<open>What a returned model file was checked for\<close>

text \<open>
  The checks of the specification, for one line of a model file: a line that starts (after
  stripping) with \<^verbatim>\<open>solver_type\<close> names one of the two dual solvers, one that starts
  with \<^verbatim>\<open>nr_class\<close> says 2, one that starts with \<^verbatim>\<open>label\<close> lists \<open>1\<close> and then
  \<open>0\<close> or \<open>-1\<close>, and one that starts with \<^verbatim>\<open>nr_feature\<close> carries an integer.
\<close>

definition validated_line :: "string \<Rightarrow> bool" where
  "validated_line l \<longleftrightarrow>
     (let line = py_strip l; toks = split_on (CHR '' '') line
      in (startswith ''solver_type'' line \<longrightarrow> (\<exists>t\<in>set solver_types. item toks 1 = Inr t)) \<and>
         (startswith ''nr_class'' line \<longrightarrow> item toks 1 = Inr ''2'') \<and>
         (startswith ''label'' line \<longrightarrow>
            item toks 1 = Inr ''1'' \<and> (item toks 2 = Inr ''0'' \<or> item toks 2 = Inr ''-1'')) \<and>
         (startswith ''nr_feature'' line \<longrightarrow> (\<exists>t n. item toks 1 = Inr t \<and> py_int t = Inr n)))"

text \<open>
  The sample count that a line declares: the integer after the first blank, if there is one.
\<close>

definition sample_count_of :: "string \<Rightarrow> int option" where
  "sample_count_of l =
     (case item (split_on (CHR '' '') (py_strip l)) 1 of
        Inl e \<Rightarrow> None
      | Inr t \<Rightarrow> (case py_int t of Inl e \<Rightarrow> None | Inr n \<Rightarrow> Some n))"

text \<open>
  The sample count in force at line \<open>k\<close>: the count declared by the nearest line before
  line \<open>k\<close> that starts with \<^verbatim>\<open>nr_sample\<close>, if there is such a line and it declares
  one.
\<close>

fun count_in_force :: "text_file \<Rightarrow> nat \<Rightarrow> int option" where
  "count_in_force lines 0 = None"
| "count_in_force lines (Suc k) =
     (if startswith ''nr_sample'' (py_strip (lines ! k)) then sample_count_of (lines ! k)
      else count_in_force lines k)"

text \<open>The nearest line before line \<open>k\<close> that starts with \<^verbatim>\<open>alpha\<close>.\<close>

fun alpha_in_force :: "text_file \<Rightarrow> nat \<Rightarrow> nat option" where
  "alpha_in_force lines 0 = None"
| "alpha_in_force lines (Suc k) =
     (if startswith ''alpha'' (py_strip (lines ! k)) then Some k else alpha_in_force lines k)"

text \<open>The alpha block of line \<open>i\<close>: the numbers on the line that follows it.\<close>

definition alpha_numbers :: "text_file \<Rightarrow> nat \<Rightarrow> error + vec" where
  "alpha_numbers lines i =
     (case item lines (Suc i) of
        Inl e \<Rightarrow> Inl e
      | Inr nxt \<Rightarrow> map_err py_float (split_on (CHR '' '') (py_strip nxt)))"

text \<open>
  The check of the specification for an \<^verbatim>\<open>alpha\<close> line \<open>i\<close>: the line has a block
  of numbers, and as many of them as the sample count in force at the line.
\<close>

definition alpha_checked :: "text_file \<Rightarrow> nat \<Rightarrow> bool" where
  "alpha_checked lines i \<longleftrightarrow>
     (case alpha_numbers lines i of
        Inl e \<Rightarrow> False
      | Inr al \<Rightarrow> count_in_force lines i = Some (int (length al)))"

text \<open>
  What holds of the local variables of \<^verbatim>\<open>parse_model_file\<close> when its loop reaches line
  \<open>k\<close>: \<^verbatim>\<open>nr_sample\<close> is the count in force, \<^verbatim>\<open>alpha\<close> is the block of the
  nearest \<^verbatim>\<open>alpha\<close> line, and the lines before \<open>k\<close> passed their checks.
\<close>

definition locals_at :: "text_file \<Rightarrow> nat \<Rightarrow> model_locals \<Rightarrow> bool" where
  "locals_at lines k st \<longleftrightarrow>
     l_nr_sample st = count_in_force lines k \<and>
     l_alpha st =
       (case alpha_in_force lines k of
          None \<Rightarrow> None
        | Some i \<Rightarrow> (case alpha_numbers lines i of Inl e \<Rightarrow> None | Inr al \<Rightarrow> Some al)) \<and>
     (\<forall>i<k. validated_line (lines ! i)) \<and>
     (\<forall>i<k. startswith ''alpha'' (py_strip (lines ! i)) \<longrightarrow> alpha_checked lines i)"

section \<open>Blocks and rows\<close>

lemma map_err_append:
  "map_err f (xs @ ys) =
     (case map_err f xs of
        Inl e \<Rightarrow> Inl e
      | Inr a \<Rightarrow> (case map_err f ys of Inl e \<Rightarrow> Inl e | Inr b \<Rightarrow> Inr (a @ b)))"
  by (induction xs) (auto split: sum.splits)

lemma map_err_all_Inr:
  "(\<And>x. x \<in> set xs \<Longrightarrow> f x = Inr (g x)) \<Longrightarrow> map_err f xs = Inr (map g xs)"
  by (induction xs) auto

lemma map_err_length: "map_err f xs = Inr ys \<Longrightarrow> length ys = length xs"
  by (induction xs arbitrary: ys) (auto split: sum.splits)

lemma kernel_matrix_append:
  "kernel_matrix K (A @ B) S = kernel_matrix K A S @ kernel_matrix K B S"
  by (simp add: kernel_matrix_def)

lemma block_decision_append:
  "block_decision m (A @ B) =
     (case block_decision m A of
        Inl e \<Rightarrow> Inl e
      | Inr a \<Rightarrow> (case block_decision m B of Inl e \<Rightarrow> Inl e | Inr b \<Rightarrow> Inr (a @ b)))"
  by (auto simp: block_decision_def kernel_matrix_append map_err_append split: sum.splits)

lemma block_decision_Nil:
  "block_decision m [] = (case take_rows (X_train m) (coef_indices m) of Inl e \<Rightarrow> Inl e | Inr sv \<Rightarrow> Inr [])"
  by (auto simp: block_decision_def kernel_matrix_def split: sum.splits)

lemma block_decision_length: "block_decision m B = Inr d \<Longrightarrow> length d = length B"
  by (auto simp: block_decision_def kernel_matrix_def split: sum.splits dest: map_err_length)

lemma block_loop_one_block:
  "(\<And>A B. f (A @ B) =
     (case f A of Inl e \<Rightarrow> Inl e | Inr a \<Rightarrow> (case f B of Inl e \<Rightarrow> Inl e | Inr b \<Rightarrow> Inr (a @ b))))
   \<Longrightarrow> 0 < p \<Longrightarrow> i < length X \<Longrightarrow>
     (case block_loop f X p i of Inl e \<Rightarrow> Inl e | Inr ds \<Rightarrow> Inr (concat ds)) = f (drop i X)"
proof (induction f X p i rule: block_loop.induct)
  case (1 f X p i)
  have split: "drop i X = take p (drop i X) @ drop (i + p) X"
    by (metis append_take_drop_id drop_drop add.commute)
  note h = "1.prems"(1) [of "take p (drop i X)" "drop (i + p) X"]
  show ?case
  proof (cases "f (take p (drop i X))")
    case (Inl e)
    then have "f (drop i X) = Inl e"
      by (subst split) (simp add: h)
    with Inl "1.prems" show ?thesis
      by (simp add: block_loop.simps [of f X p i])
  next
    case (Inr d)
    show ?thesis
    proof (cases "i + p < length X")
      case True
      with "1.IH" [OF _ Inr "1.prems"(1)] "1.prems"
      have IH: "(case block_loop f X p (i + p) of Inl e \<Rightarrow> Inl e | Inr ds \<Rightarrow> Inr (concat ds)) =
          f (drop (i + p) X)"
        by simp
      have "f (drop i X) =
          (case f (drop (i + p) X) of Inl e \<Rightarrow> Inl e | Inr b \<Rightarrow> Inr (d @ b))"
        by (subst split) (simp add: h Inr)
      with IH Inr "1.prems" show ?thesis
        by (simp add: block_loop.simps [of f X p i] split: sum.splits)
    next
      case False
      then have e: "drop (i + p) X = []" by simp
      have l: "block_loop f X p (i + p) = Inr []"
        using False by (simp add: block_loop.simps [of f X p "i + p"])
      have "drop i X = take p (drop i X)"
        using split e by simp
      then have "f (drop i X) = Inr d"
        using Inr by simp
      with l Inr "1.prems" show ?thesis
        by (simp add: block_loop.simps [of f X p i])
    qed
  qed
qed

lemma block_loop_nonempty:
  "0 < p \<Longrightarrow> i < length X \<Longrightarrow> block_loop f X p i \<noteq> Inr []"
  by (simp add: block_loop.simps [of f X p i] split: sum.splits)

lemma klr_block_proba_append:
  "klr_block_proba k (A @ B) =
     (case klr_block_proba k A of
        Inl e \<Rightarrow> Inl e
      | Inr a \<Rightarrow> (case klr_block_proba k B of Inl e \<Rightarrow> Inl e | Inr b \<Rightarrow> Inr (a @ b)))"
  by (auto simp: klr_block_proba_def kernel_matrix_append map_err_append split: sum.splits)

lemma klr_block_proba_length: "klr_block_proba k B = Inr d \<Longrightarrow> length d = length B"
  by (auto simp: klr_block_proba_def kernel_matrix_def split: sum.splits dest: map_err_length)

lemma klr_pos_proba_one_block:
  assumes "1 \<le> klr_pred_size k" and "X \<noteq> []"
  shows "klr_pos_proba k X = klr_block_proba k X"
proof -
  from assms have p: "0 < nat (klr_pred_size k)" and i: "0 < length X" by auto
  from block_loop_one_block [of "klr_block_proba k", OF klr_block_proba_append p i]
    block_loop_nonempty [OF p i, of "klr_block_proba k"] assms
  show ?thesis
    by (auto simp: klr_pos_proba_def split: sum.splits)
qed

lemma decision_function_one_block:
  assumes "1 \<le> pred_size m" and "X \<noteq> []"
  shows "decision_function m X = block_decision m X"
proof -
  from assms have p: "0 < nat (pred_size m)" and i: "0 < length X" by auto
  from block_loop_one_block [of "block_decision m", OF block_decision_append p i]
    block_loop_nonempty [OF p i, of "block_decision m"] assms
  show ?thesis
    by (auto simp: decision_function_def split: sum.splits)
qed

lemma block_decision_row:
  assumes "block_decision m X = Inr d" and "i < length X"
  shows "block_decision m [X ! i] = Inr [d ! i]"
proof -
  have X: "X = take i X @ [X ! i] @ drop (Suc i) X"
    using assms(2) by (simp add: id_take_nth_drop)
  have s1: "block_decision m X = block_decision m (take i X @ ([X ! i] @ drop (Suc i) X))"
    using X by (rule arg_cong)
  note s2 = block_decision_append [of m "take i X" "[X ! i] @ drop (Suc i) X"]
  note s3 = block_decision_append [of m "[X ! i]" "drop (Suc i) X"]
  from assms(1) s1 s2 s3 obtain a b c where a: "block_decision m (take i X) = Inr a"
    and b: "block_decision m [X ! i] = Inr b" and c: "block_decision m (drop (Suc i) X) = Inr c"
    and d: "d = a @ b @ c"
    by (auto split: sum.splits)
  from a assms(2) have la: "length a = i" by (auto dest: block_decision_length)
  from b have "length b = 1" by (auto dest: block_decision_length)
  then obtain v where "b = [v]" by (cases b) auto
  with d la have "d ! i = v" by (simp add: nth_append)
  with b \<open>b = [v]\<close> show ?thesis by simp
qed

lemma take_rows_fitted:
  "fitted m \<Longrightarrow> take_rows (X_train m) (coef_indices m) = Inr (map ((!) (X_train m)) (coef_indices m))"
  by (simp add: fitted_def take_rows_def)

lemma bmul_same_length: "length r = length c \<Longrightarrow> bmul r c = Inr (map2 (*) r c)"
  by (simp add: bmul_def)

lemma block_decision_fitted_row:
  assumes "fitted m"
  shows "block_decision m [x] =
     Inr [sum_list (map2 (*) (map (\<lambda>j. kernel_func m x (X_train m ! j)) (coef_indices m)) (coef m))
            + intercept m]"
  using assms
  by (simp add: block_decision_def take_rows_fitted kernel_matrix_def bmul_same_length fitted_def comp_def)

lemma explain_fitted:
  assumes "fitted m" and "n_cols [x] = n_cols (X_train m)"
  shows "explain m [x] =
     Inr \<lparr>data = map2 (*) (map (\<lambda>j. kernel_func m x (X_train m ! j)) (coef_indices m)) (coef m),
          indices = coef_indices m, width = length (X_train m)\<rparr>"
  using assms
  by (simp add: explain_def take_rows_fitted kernel_matrix_def bmul_same_length fitted_def comp_def
      csr_matrix_def)

lemma entry_scaled:
  "sum_list (map fst (filter (\<lambda>p. snd p = i) (zip (map2 (*) (map f idx) c) idx))) =
     (f i :: real) * sum_list (map fst (filter (\<lambda>p. snd p = i) (zip c idx)))"
proof (induction idx arbitrary: c)
  case Nil
  then show ?case by simp
next
  case (Cons j idx)
  then show ?case by (cases c) (auto simp: distrib_left)
qed

lemma entry_not_stored:
  "i \<notin> set idx \<Longrightarrow> filter (\<lambda>p. snd p = i) (zip c idx) = []"
  by (auto simp: filter_empty_conv dest: set_zip_rightD)


section \<open>Row blocking\<close>

text \<open>
  Claim C8. For block sizes \<open>p \<ge> 1\<close> and \<open>q \<ge> 1\<close> the row-blocked
  \<^verbatim>\<open>decision_function\<close> returns the same result for every query batch; so every
  block size gives what a block size of at least the number of rows, that is one block of
  all the rows, gives. For a batch with at least one row this result is the loop body applied
  to the whole batch; the output has one value per row, in the order of the rows: the value
  at position \<open>i\<close> is the decision for row \<open>i\<close> alone. The same loop in
  \<^verbatim>\<open>BinaryKernelLogisticRegression.predict_proba\<close> is independent of the block size
  as well.
\<close>

theorem decision_function_blocking:
  assumes "1 \<le> p" and "1 \<le> q"
  shows "decision_function (m\<lparr>pred_size := p\<rparr>) X = decision_function (m\<lparr>pred_size := q\<rparr>) X \<and>
         (X \<noteq> [] \<longrightarrow>
            decision_function (m\<lparr>pred_size := p\<rparr>) X = block_decision m X \<and>
            (\<forall>d. decision_function (m\<lparr>pred_size := p\<rparr>) X = Inr d \<longrightarrow>
               length d = length X \<and> (\<forall>i<length X. block_decision m [X ! i] = Inr [d ! i]))) \<and>
         klr_predict_proba (k\<lparr>klr_pred_size := p\<rparr>) X =
           klr_predict_proba (k\<lparr>klr_pred_size := q\<rparr>) X"
proof (cases "X = []")
  case True
  have "decision_function (m\<lparr>pred_size := r\<rparr>) [] = Inl ValueError" if "1 \<le> r" for r
    using that by (simp add: decision_function_def block_loop.simps [of _ "[]"])
  moreover have "klr_predict_proba (k\<lparr>klr_pred_size := r\<rparr>) [] = Inl ValueError" if "1 \<le> r" for r
    using that by (simp add: klr_predict_proba_def klr_pos_proba_def block_loop.simps [of _ "[]"])
  ultimately show ?thesis using True assms by simp
next
  case False
  have bd: "block_decision (m\<lparr>pred_size := r\<rparr>) B = block_decision m B" for r B
    by (simp add: block_decision_def split: sum.splits)
  have one: "decision_function (m\<lparr>pred_size := r\<rparr>) X = block_decision m X" if "1 \<le> r" for r
    using decision_function_one_block [of "m\<lparr>pred_size := r\<rparr>" X] that False by (simp add: bd)
  have kb: "klr_block_proba (k\<lparr>klr_pred_size := r\<rparr>) B = klr_block_proba k B" for r B
    by (simp add: klr_block_proba_def split: sum.splits)
  have kone: "klr_pos_proba (k\<lparr>klr_pred_size := r\<rparr>) X = klr_block_proba k X" if "1 \<le> r" for r
    using klr_pos_proba_one_block [of "k\<lparr>klr_pred_size := r\<rparr>" X] that False by (simp add: kb)
  have "klr_predict_proba (k\<lparr>klr_pred_size := p\<rparr>) X =
      klr_predict_proba (k\<lparr>klr_pred_size := q\<rparr>) X"
    using kone [of p] kone [of q] assms by (simp add: klr_predict_proba_def)
  with one [of p] one [of q] assms show ?thesis
    by (auto dest: block_decision_length block_decision_row)
qed

theorem decision_function_blocking_witness:
  "(1::int) \<le> 2 \<and> (1::int) \<le> 3 \<and> example_batch \<noteq> [] \<and>
   decision_function (example_svm\<lparr>pred_size := 2\<rparr>) example_batch =
     decision_function (example_svm\<lparr>pred_size := 3\<rparr>) example_batch \<and>
   decision_function (example_svm\<lparr>pred_size := 2\<rparr>) example_batch =
     Inr [- (1 / 8), 1 / 8, - (7 / 8)]"
proof -
  have h1: "(1::int) \<le> 2" by simp
  have h2: "(1::int) \<le> 3" by simp
  have h3: "example_batch \<noteq> []" by (simp add: example_batch_def)
  have v: "block_decision example_svm example_batch = Inr [- (1 / 8), 1 / 8, - (7 / 8)]"
    by (simp add: block_decision_def example_svm_def example_batch_def example_X_def take_rows_def
        kernel_matrix_def linear_kernel_def dot_def bmul_def)
  from decision_function_blocking [OF h1 h2, of example_svm example_batch example_klr] h3
  have a: "decision_function (example_svm\<lparr>pred_size := 2\<rparr>) example_batch =
      decision_function (example_svm\<lparr>pred_size := 3\<rparr>) example_batch"
    and b: "decision_function (example_svm\<lparr>pred_size := 2\<rparr>) example_batch =
      block_decision example_svm example_batch"
    by blast+
  from a b v h1 h2 h3 show ?thesis by simp
qed

section \<open>Decomposition of the decision value\<close>

text \<open>
  Claim C1. For a fitted binary SVM estimator and a single query \<open>x\<close> of shape
  \<open>(1, n_features)\<close>, \<^verbatim>\<open>decision_function\<close> returns one value, \<^verbatim>\<open>explain\<close>
  returns a sparse row, and the decision value is the sum of the explanation plus the
  intercept.
\<close>

theorem decomposition_identity:
  assumes "fitted m" and "length x = 1" and "n_cols x = n_cols (X_train m)"
  shows "\<exists>d e. decision_function m x = Inr [d] \<and> explain m x = Inr e \<and>
           d = csr_sum e + intercept m"
proof -
  from assms(2) obtain r where x: "x = [r]" by (cases x) auto
  from assms(1) have "1 \<le> pred_size m" by (simp add: fitted_def)
  then have "decision_function m x = block_decision m x"
    using x by (simp add: decision_function_one_block)
  with x assms show ?thesis
    by (simp add: block_decision_fitted_row explain_fitted csr_sum_def)
qed

theorem decomposition_identity_witness:
  "fitted example_svm \<and> length example_query = 1 \<and>
   n_cols example_query = n_cols (X_train example_svm) \<and>
   (\<exists>d e. decision_function example_svm example_query = Inr [d] \<and>
      explain example_svm example_query = Inr e \<and> d = csr_sum e + intercept example_svm)"
proof -
  have f: "fitted example_svm"
    by (simp add: fitted_def example_svm_def example_X_def)
  have l: "length example_query = 1"
    by (simp add: example_query_def)
  have c: "n_cols example_query = n_cols (X_train example_svm)"
    by (simp add: example_query_def example_svm_def example_X_def n_cols_def)
  from decomposition_identity [OF f l c] f l c show ?thesis by blast
qed

section \<open>Weights, similarity and explanation\<close>

text \<open>
  Claim C2. For a fitted binary estimator of either backend inside its dispatcher (the
  dispatcher's kernel callable computes the estimator's pairwise kernel, over the same
  training matrix) and a single query \<open>x\<close> of shape \<open>(1, n_features)\<close>: every entry
  of \<^verbatim>\<open>explain(x)\<close> is the product of the entries of \<^verbatim>\<open>similarity(x)\<close> and
  \<^verbatim>\<open>get_weight()\<close> at the same training index, and the SVM weight is 0 at every index
  that is no support index.
\<close>

theorem weight_explain_consistency:
  assumes "fitted m" and "X_train m = svm_X_train s"
    and "\<forall>A B. call_kernel (svm_kernel_func s) A B = Inr (kernel_matrix (kernel_func m) A B)"
    and "klr_fitted k" and "klr_X_train k = mklr_X_train t"
    and "length x = 1" and "n_cols x = n_cols (X_train m)" and "n_cols x = n_cols (klr_X_train k)"
  shows "(\<exists>e w S. explain m x = Inr e \<and> get_weight m = Inr w \<and>
            SVM_similarity s x None = Inr [S] \<and>
            length S = length (X_train m) \<and> width e = length (X_train m) \<and>
            width w = length (X_train m) \<and>
            (\<forall>i<length (X_train m). csr_entry e i = S ! i * csr_entry w i) \<and>
            (\<forall>i. i \<notin> set (coef_indices m) \<longrightarrow> csr_entry w i = 0)) \<and>
         (\<exists>r S. klr_explain k x = Inr [r] \<and> KLR_similarity t x None = Inr [S] \<and>
            length r = length (klr_X_train k) \<and> length S = length (klr_X_train k) \<and>
            (\<forall>i<length (klr_X_train k). r ! i = S ! i * klr_get_weight k ! i))"
proof -
  from assms(6) obtain r where x: "x = [r]" by (cases x) auto
  have sim: "SVM_similarity s [r] None = Inr (kernel_matrix (kernel_func m) [r] (X_train m))"
    using assms(2,3) by (simp add: SVM_similarity_def)
  have svm: "\<exists>e w S. explain m x = Inr e \<and> get_weight m = Inr w \<and>
            SVM_similarity s x None = Inr [S] \<and>
            length S = length (X_train m) \<and> width e = length (X_train m) \<and>
            width w = length (X_train m) \<and>
            (\<forall>i<length (X_train m). csr_entry e i = S ! i * csr_entry w i) \<and>
            (\<forall>i. i \<notin> set (coef_indices m) \<longrightarrow> csr_entry w i = 0)"
    using assms(1,7) x
    by (simp add: sim explain_fitted get_weight_def csr_matrix_def fitted_def
        kernel_matrix_def csr_entry_def entry_scaled [where f = "\<lambda>j. kernel_func m r (X_train m ! j)"]
        entry_not_stored)
  have klr: "\<exists>r S. klr_explain k x = Inr [r] \<and> KLR_similarity t x None = Inr [S] \<and>
            length r = length (klr_X_train k) \<and> length S = length (klr_X_train k) \<and>
            (\<forall>i<length (klr_X_train k). r ! i = S ! i * klr_get_weight k ! i)"
    using assms(4,8) x assms(5) [symmetric]
    by (simp add: klr_explain_def klr_fitted_def KLR_similarity_def kernel_matrix_def
        bmul_same_length klr_get_weight_def)
  from svm klr show ?thesis by blast
qed

theorem weight_explain_consistency_witness:
  "fitted example_svm \<and> X_train example_svm = svm_X_train example_SVM \<and>
   (\<forall>A B. call_kernel (svm_kernel_func example_SVM) A B =
      Inr (kernel_matrix (kernel_func example_svm) A B)) \<and>
   klr_fitted example_klr \<and> klr_X_train example_klr = mklr_X_train example_KLR \<and>
   length example_query = 1 \<and> n_cols example_query = n_cols (X_train example_svm) \<and>
   n_cols example_query = n_cols (klr_X_train example_klr) \<and>
   (\<exists>e w S. explain example_svm example_query = Inr e \<and> get_weight example_svm = Inr w \<and>
      SVM_similarity example_SVM example_query None = Inr [S] \<and>
      (\<forall>i<length (X_train example_svm). csr_entry e i = S ! i * csr_entry w i) \<and>
      (\<forall>i. i \<notin> set (coef_indices example_svm) \<longrightarrow> csr_entry w i = 0)) \<and>
   (\<exists>r S. klr_explain example_klr example_query = Inr [r] \<and>
      KLR_similarity example_KLR example_query None = Inr [S] \<and>
      (\<forall>i<length (klr_X_train example_klr). r ! i = S ! i * klr_get_weight example_klr ! i))"
proof -
  have h1: "fitted example_svm"
    by (simp add: fitted_def example_svm_def example_X_def)
  have h2: "X_train example_svm = svm_X_train example_SVM"
    by (simp add: example_svm_def example_SVM_def)
  have h3: "\<forall>A B. call_kernel (svm_kernel_func example_SVM) A B =
      Inr (kernel_matrix (kernel_func example_svm) A B)"
    by (simp add: example_svm_def example_SVM_def call_kernel_def)
  have h4: "klr_fitted example_klr"
    by (simp add: klr_fitted_def example_klr_def example_X_def)
  have h5: "klr_X_train example_klr = mklr_X_train example_KLR"
    by (simp add: example_klr_def example_KLR_def)
  have h6: "length example_query = 1"
    by (simp add: example_query_def)
  have h7: "n_cols example_query = n_cols (X_train example_svm)"
    by (simp add: example_query_def example_svm_def example_X_def n_cols_def)
  have h8: "n_cols example_query = n_cols (klr_X_train example_klr)"
    by (simp add: example_query_def example_klr_def example_X_def n_cols_def)
  from weight_explain_consistency [OF h1 h2 h3 h4 h5 h6 h7 h8] h1 h2 h3 h4 h5 h6 h7 h8
  show ?thesis by blast
qed

section \<open>Dispatch of explanations in the multiclass wrappers\<close>

lemma map_err_nth:
  "map_err f xs = Inr ys \<Longrightarrow> i < length xs \<Longrightarrow> f (xs ! i) = Inr (ys ! i)"
proof (induction xs arbitrary: ys i)
  case Nil
  then show ?case by simp
next
  case (Cons x xs)
  then show ?case by (cases i) (auto split: sum.splits)
qed

lemma sps_vstack_Inr: "sps_vstack rs = Inr R \<Longrightarrow> R = rs"
  by (auto simp: sps_vstack_def split: list.splits if_splits)

lemma np_vstack_Inr: "np_vstack bs = Inr R \<Longrightarrow> R = concat bs"
  by (auto simp: np_vstack_def split: list.splits if_splits)

lemma csr_neg_record:
  "csr_neg r = \<lparr>data = map uminus (data r), indices = indices r, width = width r\<rparr>"
  by (cases r) (simp add: csr_neg_def)

lemma negate_where_zero_nth:
  "length y = length R \<Longrightarrow> i < length R \<Longrightarrow>
     negate_where_zero neg y R ! i = (if y ! i = 0 then neg (R ! i) else R ! i)"
  by (simp add: negate_where_zero_def)

lemma py_getitem_zero: "py_getitem xs 0 = Inr v \<Longrightarrow> v = xs ! 0"
  by (auto simp: py_getitem_def py_index_def split: if_splits)

lemma py_getitem_index:
  "py_getitem xs i = Inr v \<Longrightarrow> \<exists>j. py_index (length xs) i = Inr j \<and> v = xs ! j"
  by (auto simp: py_getitem_def split: sum.splits)

lemma py_index_own:
  "k < n \<Longrightarrow> py_index n c = Inr k \<longleftrightarrow> (c = int k \<or> c = int k - int n)"
  unfolding py_index_def Let_def by (cases "c < 0") auto

lemma klr_explain_one_row: "klr_explain k x = Inr P \<Longrightarrow> length P = 1"
  by (auto simp: klr_explain_def kernel_matrix_def split: if_splits dest: map_err_length)

lemma concat_singletons: "\<forall>b\<in>set bs. length b = 1 \<Longrightarrow> concat bs = map hd bs"
proof (induction bs)
  case Nil
  then show ?case by simp
next
  case (Cons b bs)
  then obtain v where "b = [v]" by (cases b) auto
  with Cons show ?case by simp
qed

lemma SVM_explain_rows:
  assumes "SVM_explain s X y_arg = Inr R"
  shows "\<exists>y. (case y_arg of None \<Rightarrow> ovr_predict (svm_ovr s) X | Some y' \<Rightarrow> Inr y') = Inr y \<and>
           length y = length X \<and> length R = length X \<and>
           (\<forall>i<length X.
              if length (estimators (svm_ovr s)) > 1
              then \<exists>est. py_getitem (estimators (svm_ovr s)) (y ! i) = Inr est \<and>
                     explain est [X ! i] = Inr (R ! i)
              else \<exists>r. explain (estimators (svm_ovr s) ! 0) [X ! i] = Inr r \<and>
                     R ! i =
                       (if y ! i = 0
                        then \<lparr>data = map uminus (data r), indices = indices r, width = width r\<rparr>
                        else r))"
proof -
  from assms obtain y where y: "(case y_arg of None \<Rightarrow> ovr_predict (svm_ovr s) X | Some y' \<Rightarrow> Inr y') = Inr y"
    by (auto simp: SVM_explain_def split: sum.splits)
  from assms y have len: "length y = length X"
    by (auto simp: SVM_explain_def split: sum.splits if_splits)
  let ?ests = "estimators (svm_ovr s)"
  show ?thesis
  proof (cases "length ?ests > 1")
    case True
    let ?F = "\<lambda>i. case py_getitem ?ests (y ! i) of Inl e \<Rightarrow> Inl e | Inr est \<Rightarrow> explain est [X ! i]"
    from assms y len True obtain rows where rows: "map_err ?F [0..<length X] = Inr rows"
      and v: "sps_vstack rows = Inr R"
      by (auto simp: SVM_explain_def split: sum.splits)
    from v have R: "R = rows" by (rule sps_vstack_Inr)
    from rows have l: "length rows = length X" by (auto dest: map_err_length)
    have "\<exists>est. py_getitem ?ests (y ! i) = Inr est \<and> explain est [X ! i] = Inr (R ! i)"
      if "i < length X" for i
      using map_err_nth [OF rows, of i] that R by (auto split: sum.splits)
    with y len l R True show ?thesis by auto
  next
    case False
    let ?F = "\<lambda>i. case py_getitem ?ests 0 of Inl e \<Rightarrow> Inl e | Inr est \<Rightarrow> explain est [X ! i]"
    from assms y len False obtain rows R0 where rows: "map_err ?F [0..<length X] = Inr rows"
      and v: "sps_vstack rows = Inr R0" and R: "R = negate_where_zero csr_neg y R0"
      by (auto simp: SVM_explain_def split: sum.splits)
    from v have R0: "R0 = rows" by (rule sps_vstack_Inr)
    from rows have l: "length rows = length X" by (auto dest: map_err_length)
    have "\<exists>r. explain (?ests ! 0) [X ! i] = Inr r \<and> R ! i =
                       (if y ! i = 0
                        then \<lparr>data = map uminus (data r), indices = indices r, width = width r\<rparr>
                        else r)"
      if "i < length X" for i
      using map_err_nth [OF rows, of i] that R R0 l len
      by (auto simp: negate_where_zero_nth csr_neg_record split: sum.splits dest: py_getitem_zero)
    moreover have "length R = length X"
      using R R0 l len by (simp add: negate_where_zero_def)
    ultimately show ?thesis using y len False by auto
  qed
qed

lemma KLR_explain_rows:
  assumes "KLR_explain t X y_arg = Inr R"
  shows "\<exists>y. (case y_arg of None \<Rightarrow> ovr_predict (mklr_ovr t) X | Some y' \<Rightarrow> Inr y') = Inr y \<and>
           length y = length X \<and> length R = length X \<and>
           (\<forall>i<length X.
              if length (estimators (mklr_ovr t)) > 1
              then \<exists>est. py_getitem (estimators (mklr_ovr t)) (y ! i) = Inr est \<and>
                     klr_explain est [X ! i] = Inr [R ! i]
              else \<exists>r. klr_explain (estimators (mklr_ovr t) ! 0) [X ! i] = Inr [r] \<and>
                     R ! i = (if y ! i = 0 then map uminus r else r))"
proof -
  from assms obtain y where y: "(case y_arg of None \<Rightarrow> ovr_predict (mklr_ovr t) X | Some y' \<Rightarrow> Inr y') = Inr y"
    by (auto simp: KLR_explain_def split: sum.splits)
  from assms y have len: "length y = length X"
    by (auto simp: KLR_explain_def split: sum.splits if_splits)
  let ?ests = "estimators (mklr_ovr t)"
  show ?thesis
  proof (cases "length ?ests > 1")
    case True
    let ?F = "\<lambda>i. case py_getitem ?ests (y ! i) of Inl e \<Rightarrow> Inl e | Inr est \<Rightarrow> klr_explain est [X ! i]"
    from assms y len True obtain blocks where blocks: "map_err ?F [0..<length X] = Inr blocks"
      and v: "np_vstack blocks = Inr R"
      by (auto simp: KLR_explain_def split: sum.splits)
    from blocks have l: "length blocks = length X" by (auto dest: map_err_length)
    have one: "\<exists>est. py_getitem ?ests (y ! i) = Inr est \<and> klr_explain est [X ! i] = Inr (blocks ! i)"
      if "i < length X" for i
      using map_err_nth [OF blocks, of i] that by (auto split: sum.splits)
    have single: "\<forall>b\<in>set blocks. length b = 1"
    proof
      fix b assume "b \<in> set blocks"
      then obtain i where "i < length blocks" "b = blocks ! i" by (auto simp: in_set_conv_nth)
      with one [of i] l show "length b = 1" by (auto dest: klr_explain_one_row)
    qed
    from v single have R: "R = map hd blocks"
      by (auto dest: np_vstack_Inr simp: concat_singletons)
    have "\<exists>est. py_getitem ?ests (y ! i) = Inr est \<and> klr_explain est [X ! i] = Inr [R ! i]"
      if "i < length X" for i
    proof -
      from that l single have "length (blocks ! i) = 1" by simp
      then have "blocks ! i = [hd (blocks ! i)]" by (cases "blocks ! i") auto
      with one [OF that] R that l show ?thesis by auto
    qed
    with y len l R True show ?thesis by auto
  next
    case False
    let ?F = "\<lambda>i. case py_getitem ?ests 0 of Inl e \<Rightarrow> Inl e | Inr est \<Rightarrow> klr_explain est [X ! i]"
    from assms y len False obtain blocks R0 where blocks: "map_err ?F [0..<length X] = Inr blocks"
      and v: "np_vstack blocks = Inr R0" and R: "R = negate_where_zero (map uminus) y R0"
      by (auto simp: KLR_explain_def split: sum.splits)
    from blocks have l: "length blocks = length X" by (auto dest: map_err_length)
    have one: "klr_explain (?ests ! 0) [X ! i] = Inr (blocks ! i)"
      if "i < length X" for i
      using map_err_nth [OF blocks, of i] that by (auto split: sum.splits dest: py_getitem_zero)
    have single: "\<forall>b\<in>set blocks. length b = 1"
    proof
      fix b assume "b \<in> set blocks"
      then obtain i where "i < length blocks" "b = blocks ! i" by (auto simp: in_set_conv_nth)
      with one [of i] l show "length b = 1" by (auto dest: klr_explain_one_row)
    qed
    from v single have R0: "R0 = map hd blocks"
      by (auto dest: np_vstack_Inr simp: concat_singletons)
    have "\<exists>r. klr_explain (?ests ! 0) [X ! i] = Inr [r] \<and>
             R ! i = (if y ! i = 0 then map uminus r else r)"
      if "i < length X" for i
    proof -
      from that l single have "length (blocks ! i) = 1" by simp
      then have "blocks ! i = [hd (blocks ! i)]" by (cases "blocks ! i") auto
      with one [OF that] R R0 that l len show ?thesis
        by (auto simp: negate_where_zero_nth)
    qed
    moreover have "length R = length X"
      using R R0 l len by (simp add: negate_where_zero_def)
    ultimately show ?thesis using y len False by auto
  qed
qed

lemma py_getitem_in_range:
  assumes "- int (length xs) \<le> i" and "i < int (length xs)"
  shows "\<exists>v. py_getitem xs i = Inr v \<and> v \<in> set xs"
proof (cases "i < 0")
  case True
  with assms have "py_getitem xs i = Inr (xs ! nat (int (length xs) + i))"
    and "nat (int (length xs) + i) < length xs"
    by (auto simp: py_getitem_def py_index_def Let_def)
  then show ?thesis by auto
next
  case False
  with assms have "py_getitem xs i = Inr (xs ! nat i)" and "nat i < length xs"
    by (auto simp: py_getitem_def py_index_def Let_def)
  then show ?thesis by auto
qed

lemma map_err_all_returns:
  assumes "\<And>x. x \<in> set xs \<Longrightarrow> \<exists>v. f x = Inr v \<and> P v"
  shows "\<exists>vs. map_err f xs = Inr vs \<and> length vs = length xs \<and> (\<forall>v\<in>set vs. P v)"
  using assms
proof (induction xs)
  case Nil
  then show ?case by simp
next
  case (Cons x xs)
  from Cons.prems [of x] obtain v where v: "f x = Inr v" "P v" by auto
  from Cons.IH Cons.prems obtain vs where "map_err f xs = Inr vs" "length vs = length xs"
    "\<forall>v\<in>set vs. P v"
    by auto
  with v show ?case by simp
qed

lemma SVM_explain_returns:
  assumes "X \<noteq> []" and "length y = length X"
    and "estimators (svm_ovr s) \<noteq> []"
    and "\<forall>e\<in>set (estimators (svm_ovr s)).
           fitted e \<and> length (X_train e) = n \<and> n_cols (X_train e) = f"
    and "\<forall>r\<in>set X. length r = f"
    and "length (estimators (svm_ovr s)) > 1 \<longrightarrow>
           (\<forall>l\<in>set y. - int (length (estimators (svm_ovr s))) \<le> l \<and>
              l < int (length (estimators (svm_ovr s))))"
  shows "\<exists>R. SVM_explain s X (Some y) = Inr R"
proof -
  let ?ests = "estimators (svm_ovr s)"
  have ex: "\<exists>v. explain e [X ! i] = Inr v \<and> width v = n" if "e \<in> set ?ests" "i < length X" for e i
  proof -
    from that assms(4,5) have "fitted e" "n_cols [X ! i] = n_cols (X_train e)" "length (X_train e) = n"
      by (auto simp: n_cols_def)
    then show ?thesis by (simp add: explain_fitted)
  qed
  show ?thesis
  proof (cases "length ?ests > 1")
    case True
    let ?F = "\<lambda>i. case py_getitem ?ests (y ! i) of Inl e \<Rightarrow> Inl e | Inr est \<Rightarrow> explain est [X ! i]"
    have "\<exists>v. ?F i = Inr v \<and> width v = n" if "i \<in> set [0..<length X]" for i
    proof -
      from that assms(2) have i: "i < length X" "y ! i \<in> set y" by auto
      with True assms(6) obtain e where "py_getitem ?ests (y ! i) = Inr e" "e \<in> set ?ests"
        using py_getitem_in_range [of ?ests "y ! i"] by auto
      with ex [of e i] i show ?thesis by auto
    qed
    from map_err_all_returns [of "[0..<length X]" ?F "\<lambda>v. width v = n", OF this]
    obtain rows where rows: "map_err ?F [0..<length X] = Inr rows" "length rows = length X"
      "\<forall>v\<in>set rows. width v = n"
      by auto
    from rows(2,3) assms(1) have "sps_vstack rows = Inr rows"
      by (cases rows) (auto simp: sps_vstack_def list_all_iff)
    with rows(1) True assms(2) show ?thesis
      by (simp add: SVM_explain_def)
  next
    case False
    let ?F = "\<lambda>i. case py_getitem ?ests 0 of Inl e \<Rightarrow> Inl e | Inr est \<Rightarrow> explain est [X ! i]"
    from assms(3) obtain e where e: "py_getitem ?ests 0 = Inr e" "e \<in> set ?ests"
      using py_getitem_in_range [of ?ests 0] by auto
    have "\<exists>v. ?F i = Inr v \<and> width v = n" if "i \<in> set [0..<length X]" for i
      using that e ex [of e i] by auto
    from map_err_all_returns [of "[0..<length X]" ?F "\<lambda>v. width v = n", OF this]
    obtain rows where rows: "map_err ?F [0..<length X] = Inr rows" "length rows = length X"
      "\<forall>v\<in>set rows. width v = n"
      by auto
    from rows(2,3) assms(1) have "sps_vstack rows = Inr rows"
      by (cases rows) (auto simp: sps_vstack_def list_all_iff)
    with rows(1) False assms(2) show ?thesis
      by (simp add: SVM_explain_def)
  qed
qed

lemma klr_explain_fitted:
  assumes "klr_fitted k" and "n_cols [x] = n_cols (klr_X_train k)"
  shows "klr_explain k [x] = Inr [map2 (*) (map (linear_kernel x) (klr_X_train k)) (klr_coef k)]"
  using assms
  by (simp add: klr_explain_def klr_fitted_def kernel_matrix_def bmul_same_length)

lemma KLR_explain_returns:
  assumes "X \<noteq> []" and "length y = length X"
    and "estimators (mklr_ovr t) \<noteq> []"
    and "\<forall>e\<in>set (estimators (mklr_ovr t)).
           klr_fitted e \<and> length (klr_X_train e) = n \<and> n_cols (klr_X_train e) = f"
    and "\<forall>r\<in>set X. length r = f"
    and "length (estimators (mklr_ovr t)) > 1 \<longrightarrow>
           (\<forall>l\<in>set y. - int (length (estimators (mklr_ovr t))) \<le> l \<and>
              l < int (length (estimators (mklr_ovr t))))"
  shows "\<exists>R. KLR_explain t X (Some y) = Inr R"
proof -
  let ?ests = "estimators (mklr_ovr t)"
  have ex: "\<exists>v. klr_explain e [X ! i] = Inr v \<and> n_cols v = n" if "e \<in> set ?ests" "i < length X" for e i
  proof -
    from that assms(4,5) have "klr_fitted e" "n_cols [X ! i] = n_cols (klr_X_train e)"
      "length (klr_X_train e) = n"
      by (auto simp: n_cols_def)
    then show ?thesis by (simp add: klr_explain_fitted n_cols_def klr_fitted_def)
  qed
  show ?thesis
  proof (cases "length ?ests > 1")
    case True
    let ?F = "\<lambda>i. case py_getitem ?ests (y ! i) of Inl e \<Rightarrow> Inl e | Inr est \<Rightarrow> klr_explain est [X ! i]"
    have "\<exists>v. ?F i = Inr v \<and> n_cols v = n" if "i \<in> set [0..<length X]" for i
    proof -
      from that assms(2) have i: "i < length X" "y ! i \<in> set y" by auto
      with True assms(6) obtain e where "py_getitem ?ests (y ! i) = Inr e" "e \<in> set ?ests"
        using py_getitem_in_range [of ?ests "y ! i"] by auto
      with ex [of e i] i show ?thesis by auto
    qed
    from map_err_all_returns [of "[0..<length X]" ?F "\<lambda>v. n_cols v = n", OF this]
    obtain blocks where blocks: "map_err ?F [0..<length X] = Inr blocks" "length blocks = length X"
      "\<forall>v\<in>set blocks. n_cols v = n"
      by auto
    from blocks(2,3) assms(1) have "np_vstack blocks = Inr (concat blocks)"
      by (cases blocks) (auto simp: np_vstack_def list_all_iff)
    with blocks(1) True assms(2) show ?thesis
      by (simp add: KLR_explain_def)
  next
    case False
    let ?F = "\<lambda>i. case py_getitem ?ests 0 of Inl e \<Rightarrow> Inl e | Inr est \<Rightarrow> klr_explain est [X ! i]"
    from assms(3) obtain e where e: "py_getitem ?ests 0 = Inr e" "e \<in> set ?ests"
      using py_getitem_in_range [of ?ests 0] by auto
    have "\<exists>v. ?F i = Inr v \<and> n_cols v = n" if "i \<in> set [0..<length X]" for i
      using that e ex [of e i] by auto
    from map_err_all_returns [of "[0..<length X]" ?F "\<lambda>v. n_cols v = n", OF this]
    obtain blocks where blocks: "map_err ?F [0..<length X] = Inr blocks" "length blocks = length X"
      "\<forall>v\<in>set blocks. n_cols v = n"
      by auto
    from blocks(2,3) assms(1) have "np_vstack blocks = Inr (concat blocks)"
      by (cases blocks) (auto simp: np_vstack_def list_all_iff)
    with blocks(1) False assms(2) show ?thesis
      by (simp add: KLR_explain_def)
  qed
qed

text \<open>
  Claim C6. Whenever \<^verbatim>\<open>explain(X, y)\<close> of a dispatcher returns, with \<open>y\<close> the given
  labels or, when none are given, the predicted ones: there is one result row per query row;
  with more than one binary estimator, row \<open>i\<close> is the explanation of row \<open>i\<close> by the
  estimator at (Python) index \<open>y[i]\<close> of the estimator list, unchanged; otherwise row
  \<open>i\<close> is the single estimator's explanation of row \<open>i\<close>, negated exactly when
  \<open>y[i] = 0\<close>: for the SVM dispatcher the sparse row with the same indices and width and
  every stored value with its sign changed, for the kernel logistic-regression dispatcher
  the dense row with every entry with its sign changed. And \<^verbatim>\<open>explain\<close> does return for a batch with at least one row, one label
  per row, fitted estimators over training sets of one size, query rows of the training
  width and, with more than one estimator, labels that are indices of the estimator list.
\<close>

theorem explain_sign_convention:
  "(SVM_explain s X y_arg = Inr R \<longrightarrow>
      (\<exists>y. (case y_arg of None \<Rightarrow> ovr_predict (svm_ovr s) X | Some y' \<Rightarrow> Inr y') = Inr y \<and>
         length y = length X \<and> length R = length X \<and>
         (\<forall>i<length X.
            if length (estimators (svm_ovr s)) > 1
            then \<exists>est. py_getitem (estimators (svm_ovr s)) (y ! i) = Inr est \<and>
                   explain est [X ! i] = Inr (R ! i)
            else \<exists>r. explain (estimators (svm_ovr s) ! 0) [X ! i] = Inr r \<and>
                   R ! i =
                       (if y ! i = 0
                        then \<lparr>data = map uminus (data r), indices = indices r, width = width r\<rparr>
                        else r)))) \<and>
   (KLR_explain t X' y_arg' = Inr R' \<longrightarrow>
      (\<exists>y. (case y_arg' of None \<Rightarrow> ovr_predict (mklr_ovr t) X' | Some y' \<Rightarrow> Inr y') = Inr y \<and>
         length y = length X' \<and> length R' = length X' \<and>
         (\<forall>i<length X'.
            if length (estimators (mklr_ovr t)) > 1
            then \<exists>est. py_getitem (estimators (mklr_ovr t)) (y ! i) = Inr est \<and>
                   klr_explain est [X' ! i] = Inr [R' ! i]
            else \<exists>r. klr_explain (estimators (mklr_ovr t) ! 0) [X' ! i] = Inr [r] \<and>
                   R' ! i = (if y ! i = 0 then map uminus r else r)))) \<and>
   (X \<noteq> [] \<and> length y0 = length X \<and> estimators (svm_ovr s) \<noteq> [] \<and>
    (\<forall>e\<in>set (estimators (svm_ovr s)).
       fitted e \<and> length (X_train e) = n \<and> n_cols (X_train e) = f) \<and>
    (\<forall>r\<in>set X. length r = f) \<and>
    (length (estimators (svm_ovr s)) > 1 \<longrightarrow>
       (\<forall>l\<in>set y0. - int (length (estimators (svm_ovr s))) \<le> l \<and>
          l < int (length (estimators (svm_ovr s))))) \<longrightarrow>
    (\<exists>R0. SVM_explain s X (Some y0) = Inr R0)) \<and>
   (X' \<noteq> [] \<and> length y0' = length X' \<and> estimators (mklr_ovr t) \<noteq> [] \<and>
    (\<forall>e\<in>set (estimators (mklr_ovr t)).
       klr_fitted e \<and> length (klr_X_train e) = n' \<and> n_cols (klr_X_train e) = f') \<and>
    (\<forall>r\<in>set X'. length r = f') \<and>
    (length (estimators (mklr_ovr t)) > 1 \<longrightarrow>
       (\<forall>l\<in>set y0'. - int (length (estimators (mklr_ovr t))) \<le> l \<and>
          l < int (length (estimators (mklr_ovr t))))) \<longrightarrow>
    (\<exists>R0. KLR_explain t X' (Some y0') = Inr R0))"
  using SVM_explain_rows [of s X y_arg R] KLR_explain_rows [of t X' y_arg' R']
    SVM_explain_returns [of X y0 s n f] KLR_explain_returns [of X' y0' t n' f']
  by blast

lemmas example_defs = example_SVM3_def example_ovr3_def example_svm_def example_svm_b_def
  example_svm_c_def example_X_def example_batch_def example_query_def example_SVM_def
  example_KLR_def example_klr_def

lemmas explain_defs = SVM_explain_def KLR_explain_def py_getitem_def py_index_def explain_def
  klr_explain_def n_cols_def take_rows_def kernel_matrix_def linear_kernel_def dot_def bmul_def
  csr_matrix_def sps_vstack_def np_vstack_def negate_where_zero_def csr_neg_def

theorem explain_sign_convention_witness:
  "SVM_explain (example_SVM3 [0, 1, 2]) example_batch (Some [2, 0, 1]) =
     Inr [\<lparr>data = [4, 9], indices = [0, 1], width = 3\<rparr>,
          \<lparr>data = [1 / 2, - (1 / 2)], indices = [0, 2], width = 3\<rparr>,
          \<lparr>data = [4], indices = [1], width = 3\<rparr>] \<and>
   SVM_explain example_SVM example_batch (Some [0, 1, 0]) =
     Inr [\<lparr>data = [- 1, 5 / 4], indices = [0, 2], width = 3\<rparr>,
          \<lparr>data = [1 / 2, - (1 / 2)], indices = [0, 2], width = 3\<rparr>,
          \<lparr>data = [0, 1], indices = [0, 2], width = 3\<rparr>] \<and>
   SVM_explain example_SVM example_batch None =
     Inr [\<lparr>data = [- 1, 5 / 4], indices = [0, 2], width = 3\<rparr>,
          \<lparr>data = [1 / 2, - (1 / 2)], indices = [0, 2], width = 3\<rparr>,
          \<lparr>data = [0, 1], indices = [0, 2], width = 3\<rparr>] \<and>
   KLR_explain example_KLR example_batch (Some [0, 1, 0]) =
     Inr [[- 1, 3 / 4, - 5], [1 / 2, - (1 / 4), 2], [0, 1, - 4]] \<and>
   (\<exists>est. py_getitem (estimators (svm_ovr (example_SVM3 [0, 1, 2]))) 2 = Inr est \<and>
      explain est [example_batch ! 0] = Inr \<lparr>data = [4, 9], indices = [0, 1], width = 3\<rparr>) \<and>
   (\<exists>est. py_getitem (estimators (svm_ovr (example_SVM3 [0, 1, 2]))) 0 = Inr est \<and>
      explain est [example_batch ! 1] =
        Inr \<lparr>data = [1 / 2, - (1 / 2)], indices = [0, 2], width = 3\<rparr>) \<and>
   explain (estimators (svm_ovr example_SVM) ! 0) [example_batch ! 0] =
     Inr \<lparr>data = [1, - (5 / 4)], indices = [0, 2], width = 3\<rparr> \<and>
   (\<exists>r. explain (estimators (svm_ovr example_SVM) ! 0) [example_batch ! 0] = Inr r \<and>
      \<lparr>data = [- 1, 5 / 4], indices = [0, 2], width = 3\<rparr> =
        \<lparr>data = map uminus (data r), indices = indices r, width = width r\<rparr>) \<and>
   explain (estimators (svm_ovr example_SVM) ! 0) [example_batch ! 1] =
     Inr \<lparr>data = [1 / 2, - (1 / 2)], indices = [0, 2], width = 3\<rparr> \<and>
   klr_explain (estimators (mklr_ovr example_KLR) ! 0) [example_batch ! 0] =
     Inr [map uminus [- 1, 3 / 4, - 5]] \<and>
   klr_explain (estimators (mklr_ovr example_KLR) ! 0) [example_batch ! 1] =
     Inr [[1 / 2, - (1 / 4), 2]]"
proof -
  let ?R = "[\<lparr>data = [4, 9], indices = [0, 1], width = 3\<rparr>,
          \<lparr>data = [1 / 2, - (1 / 2)], indices = [0, 2], width = 3\<rparr>,
          \<lparr>data = [4 :: real], indices = [1], width = 3\<rparr>]"
  let ?B = "[\<lparr>data = [- 1, 5 / 4], indices = [0, 2], width = 3\<rparr>,
          \<lparr>data = [1 / 2, - (1 / 2)], indices = [0, 2], width = 3\<rparr>,
          \<lparr>data = [0, 1 :: real], indices = [0, 2], width = 3\<rparr>]"
  let ?R' = "[[- 1, 3 / 4, - 5], [1 / 2, - (1 / 4), 2], [0, 1, - 4 :: real]]"
  have a: "SVM_explain (example_SVM3 [0, 1, 2]) example_batch (Some [2, 0, 1]) = Inr ?R"
    by (simp add: example_defs explain_defs upt_rec)
  have c: "SVM_explain example_SVM example_batch (Some [0, 1, 0]) = Inr ?B"
    by (simp add: example_defs explain_defs upt_rec)
  have dec: "decision_function example_svm example_batch = Inr [- (1 / 8), 1 / 8, - (7 / 8)]"
  proof -
    have "decision_function example_svm example_batch = block_decision example_svm example_batch"
      by (rule decision_function_one_block) (simp_all add: example_svm_def example_batch_def)
    then show ?thesis
      by (simp add: block_decision_def example_svm_def example_batch_def example_X_def
          take_rows_def kernel_matrix_def linear_kernel_def dot_def bmul_def)
  qed
  have pr: "ovr_predict (svm_ovr example_SVM) example_batch = Inr [0, 1, 0]"
    by (simp add: example_SVM_def dec)
  have c': "SVM_explain example_SVM example_batch None = Inr ?B"
    using c pr by (simp add: SVM_explain_def)
  have b: "KLR_explain example_KLR example_batch (Some [0, 1, 0]) = Inr ?R'"
    by (simp add: example_defs explain_defs upt_rec)
  have m: "length (estimators (svm_ovr (example_SVM3 [0, 1, 2]))) > 1"
    by (simp add: example_defs)
  have n: "\<not> length (estimators (mklr_ovr example_KLR)) > 1"
    by (simp add: example_defs)
  have n': "\<not> length (estimators (svm_ovr example_SVM)) > 1"
    by (simp add: example_defs)
  have l: "length example_batch = 3"
    by (simp add: example_batch_def)
  note t = explain_sign_convention [where s = "example_SVM3 [0, 1, 2]" and X = example_batch
      and y_arg = "Some [2, 0, 1]" and R = ?R and t = example_KLR and X' = example_batch
      and y_arg' = "Some [0, 1, 0]" and R' = ?R']
  note u = explain_sign_convention [where s = example_SVM and X = example_batch
      and y_arg = None and R = ?B]
  from t a m have svm: "\<forall>i<length example_batch.
      \<exists>est. py_getitem (estimators (svm_ovr (example_SVM3 [0, 1, 2]))) ([2, 0, 1] ! i) = Inr est \<and>
        explain est [example_batch ! i] = Inr (?R ! i)"
    by simp
  from u c' n' pr have bin: "\<forall>i<length example_batch.
      \<exists>r. explain (estimators (svm_ovr example_SVM) ! 0) [example_batch ! i] = Inr r \<and>
        ?B ! i =
          (if [0, 1, 0 :: int] ! i = 0
           then \<lparr>data = map uminus (data r), indices = indices r, width = width r\<rparr> else r)"
    by simp
  from t b n have klr: "\<forall>i<length example_batch.
      \<exists>r. klr_explain (estimators (mklr_ovr example_KLR) ! 0) [example_batch ! i] = Inr [r] \<and>
        ?R' ! i = (if [0, 1, 0 :: int] ! i = 0 then map uminus r else r)"
    by simp
  from svm [rule_format, of 0] svm [rule_format, of 1] l
  have s: "(\<exists>est. py_getitem (estimators (svm_ovr (example_SVM3 [0, 1, 2]))) 2 = Inr est \<and>
      explain est [example_batch ! 0] = Inr \<lparr>data = [4, 9], indices = [0, 1], width = 3\<rparr>) \<and>
   (\<exists>est. py_getitem (estimators (svm_ovr (example_SVM3 [0, 1, 2]))) 0 = Inr est \<and>
      explain est [example_batch ! 1] =
        Inr \<lparr>data = [1 / 2, - (1 / 2)], indices = [0, 2], width = 3\<rparr>)"
    by simp
  from bin [rule_format, of 0] l
  have b0: "\<exists>r. explain (estimators (svm_ovr example_SVM) ! 0) [example_batch ! 0] = Inr r \<and>
      \<lparr>data = [- 1, 5 / 4], indices = [0, 2], width = 3\<rparr> =
        \<lparr>data = map uminus (data r), indices = indices r, width = width r\<rparr>"
    by simp
  from bin [rule_format, of 1] l
  have b1: "explain (estimators (svm_ovr example_SVM) ! 0) [example_batch ! 1] =
     Inr \<lparr>data = [1 / 2, - (1 / 2)], indices = [0, 2], width = 3\<rparr>"
    by simp
  have e0: "explain (estimators (svm_ovr example_SVM) ! 0) [example_batch ! 0] =
     Inr \<lparr>data = [1, - (5 / 4)], indices = [0, 2], width = 3\<rparr>"
    by (simp add: example_defs explain_defs)
  from klr [rule_format, of 0] l
  obtain r0 where r0: "klr_explain (estimators (mklr_ovr example_KLR) ! 0) [example_batch ! 0] = Inr [r0]"
    and v0: "[- 1, 3 / 4, - 5] = map uminus r0"
    by auto
  from v0 have "map uminus [- 1, 3 / 4, - 5 :: real] = map uminus (map uminus r0)" by simp
  then have "r0 = map uminus [- 1, 3 / 4, - 5]" by (simp add: comp_def)
  with r0 have k0: "klr_explain (estimators (mklr_ovr example_KLR) ! 0) [example_batch ! 0] =
     Inr [map uminus [- 1, 3 / 4, - 5]]"
    by simp
  from klr [rule_format, of 1] l
  have k1: "klr_explain (estimators (mklr_ovr example_KLR) ! 0) [example_batch ! 1] =
     Inr [[1 / 2, - (1 / 4), 2]]"
    by auto
  from a c c' b s e0 b0 b1 k0 k1 show ?thesis by blast
qed

section \<open>Labels as list indices\<close>

text \<open>
  Claim C10, as amended. In the multiclass branch (more than one binary estimator) both
  dispatchers select the estimator for row \<open>i\<close> by using the label \<open>y[i]\<close> as a Python
  index into the ordered estimator list. Every class label selects the estimator of its own
  class exactly when the \<open>k\<close>-th label of the sorted class list is \<open>k\<close> or
  \<open>k - n_classes\<close> (a negative index counts from the end of the list); for class labels
  that are not negative, exactly when the labels are \<open>0, \<dots>, n_classes - 1\<close>. A label
  below \<open>- n_classes\<close> or above \<open>n_classes - 1\<close> raises IndexError.
\<close>

theorem label_indexing:
  "(length (estimators (svm_ovr s)) > 1 \<longrightarrow> SVM_explain s X (Some y) = Inr R \<longrightarrow>
      (\<forall>i<length X. \<exists>j. py_index (length (estimators (svm_ovr s))) (y ! i) = Inr j \<and>
         explain (estimators (svm_ovr s) ! j) [X ! i] = Inr (R ! i))) \<and>
   (length (estimators (mklr_ovr t)) > 1 \<longrightarrow> KLR_explain t X' (Some y') = Inr R' \<longrightarrow>
      (\<forall>i<length X'. \<exists>j. py_index (length (estimators (mklr_ovr t))) (y' ! i) = Inr j \<and>
         klr_explain (estimators (mklr_ovr t) ! j) [X' ! i] = Inr [R' ! i])) \<and>
   (label_selects_own_estimator cls \<longleftrightarrow>
      (\<forall>k<length cls. cls ! k = int k \<or> cls ! k = int k - int (length cls))) \<and>
   ((\<forall>c\<in>set cls. 0 \<le> c) \<longrightarrow>
      (label_selects_own_estimator cls \<longleftrightarrow> cls = map int [0..<length cls])) \<and>
   (c < - int (length ests) \<or> int (length ests) \<le> c \<longrightarrow> py_getitem ests c = Inl IndexError)"
proof -
  have svm: "\<exists>j. py_index (length (estimators (svm_ovr s))) (y ! i) = Inr j \<and>
         explain (estimators (svm_ovr s) ! j) [X ! i] = Inr (R ! i)"
    if "length (estimators (svm_ovr s)) > 1" "SVM_explain s X (Some y) = Inr R" "i < length X" for i
  proof -
    from SVM_explain_rows [OF that(2)] that(1,3)
    obtain est where "py_getitem (estimators (svm_ovr s)) (y ! i) = Inr est"
      and "explain est [X ! i] = Inr (R ! i)"
      by auto
    then show ?thesis by (auto dest: py_getitem_index)
  qed
  have klr: "\<exists>j. py_index (length (estimators (mklr_ovr t))) (y' ! i) = Inr j \<and>
         klr_explain (estimators (mklr_ovr t) ! j) [X' ! i] = Inr [R' ! i]"
    if "length (estimators (mklr_ovr t)) > 1" "KLR_explain t X' (Some y') = Inr R'" "i < length X'" for i
  proof -
    from KLR_explain_rows [OF that(2)] that(1,3)
    obtain est where "py_getitem (estimators (mklr_ovr t)) (y' ! i) = Inr est"
      and "klr_explain est [X' ! i] = Inr [R' ! i]"
      by auto
    then show ?thesis by (auto dest: py_getitem_index)
  qed
  have own: "label_selects_own_estimator cls \<longleftrightarrow>
      (\<forall>k<length cls. cls ! k = int k \<or> cls ! k = int k - int (length cls))"
    by (auto simp: label_selects_own_estimator_def list_all_iff py_index_own)
  have nonneg: "label_selects_own_estimator cls \<longleftrightarrow> cls = map int [0..<length cls]"
    if nn: "\<forall>c\<in>set cls. 0 \<le> c"
  proof
    assume "label_selects_own_estimator cls"
    with own have "\<forall>k<length cls. cls ! k = int k \<or> cls ! k = int k - int (length cls)"
      by simp
    moreover have "0 \<le> cls ! k" if "k < length cls" for k
      using nn that by simp
    ultimately have "\<forall>k<length cls. cls ! k = int k"
      by (metis diff_less_0_iff_less not_less of_nat_less_iff)
    then show "cls = map int [0..<length cls]"
      by (simp add: nth_equalityI)
  next
    assume "cls = map int [0..<length cls]"
    then have "\<forall>k<length cls. cls ! k = int k"
      by (metis add_0 length_map nth_map nth_upt length_upt diff_zero)
    with own show "label_selects_own_estimator cls" by simp
  qed
  have range: "py_getitem ests c = Inl IndexError"
    if "c < - int (length ests) \<or> int (length ests) \<le> c"
    using that by (auto simp: py_getitem_def py_index_def Let_def)
  from svm klr own nonneg range show ?thesis by blast
qed

theorem label_indexing_witness:
  "length (estimators (svm_ovr (example_SVM3 [0, 1, 2]))) > 1 \<and>
   SVM_explain (example_SVM3 [0, 1, 2]) example_batch (Some [2, 0, 1]) =
     Inr [\<lparr>data = [4, 9], indices = [0, 1], width = 3\<rparr>,
          \<lparr>data = [1 / 2, - (1 / 2)], indices = [0, 2], width = 3\<rparr>,
          \<lparr>data = [4], indices = [1], width = 3\<rparr>] \<and>
   (\<exists>j. py_index (length (estimators (svm_ovr (example_SVM3 [0, 1, 2])))) 2 = Inr j \<and>
      explain (estimators (svm_ovr (example_SVM3 [0, 1, 2])) ! j) [example_batch ! 0] =
        Inr \<lparr>data = [4, 9], indices = [0, 1], width = 3\<rparr>) \<and>
   list_all (\<lambda>c. 0 \<le> c) [0, 1, 2 :: int] \<and>
   label_selects_own_estimator [0, 1, 2] \<and>
   \<not> label_selects_own_estimator [1, 2, 3] \<and>
   int (length [example_svm, example_svm_b, example_svm_c]) \<le> 3 \<and>
   py_getitem [example_svm, example_svm_b, example_svm_c] 3 = Inl IndexError"
proof -
  let ?R = "[\<lparr>data = [4, 9], indices = [0, 1], width = 3\<rparr>,
          \<lparr>data = [1 / 2, - (1 / 2)], indices = [0, 2], width = 3\<rparr>,
          \<lparr>data = [4 :: real], indices = [1], width = 3\<rparr>]"
  have m: "length (estimators (svm_ovr (example_SVM3 [0, 1, 2]))) > 1"
    by (simp add: example_defs)
  have a: "SVM_explain (example_SVM3 [0, 1, 2]) example_batch (Some [2, 0, 1]) = Inr ?R"
    by (simp add: example_defs explain_defs upt_rec)
  have l: "length example_batch = 3"
    by (simp add: example_batch_def)
  have n1: "\<forall>c\<in>set [0, 1, 2 :: int]. 0 \<le> c" by simp
  have n2: "\<forall>c\<in>set [1, 2, 3 :: int]. 0 \<le> c" by simp
  have r: "int (length [example_svm, example_svm_b, example_svm_c]) \<le> 3"
    by simp
  note t1 = label_indexing [of "example_SVM3 [0, 1, 2]" example_batch "[2, 0, 1]" ?R
      example_KLR example_batch "[]" "[]" "[0, 1, 2]" 3 "[example_svm, example_svm_b, example_svm_c]"]
  note t2 = label_indexing [of "example_SVM3 [0, 1, 2]" example_batch "[2, 0, 1]" ?R
      example_KLR example_batch "[]" "[]" "[1, 2, 3]" 3 "[example_svm, example_svm_b, example_svm_c]"]
  from t1 m a have rows: "\<forall>i<length example_batch.
      \<exists>j. py_index (length (estimators (svm_ovr (example_SVM3 [0, 1, 2])))) ([2, 0, 1] ! i) = Inr j \<and>
        explain (estimators (svm_ovr (example_SVM3 [0, 1, 2])) ! j) [example_batch ! i] =
          Inr (?R ! i)"
    by blast
  from rows [rule_format, of 0] l
  have row0: "\<exists>j. py_index (length (estimators (svm_ovr (example_SVM3 [0, 1, 2])))) 2 = Inr j \<and>
      explain (estimators (svm_ovr (example_SVM3 [0, 1, 2])) ! j) [example_batch ! 0] =
        Inr \<lparr>data = [4, 9], indices = [0, 1], width = 3\<rparr>"
    by simp
  from t1 have "(\<forall>c\<in>set [0, 1, 2 :: int]. 0 \<le> c) \<longrightarrow>
      (label_selects_own_estimator [0, 1, 2] \<longleftrightarrow> [0, 1, 2] = map int [0..<length [0, 1, 2 :: int]])"
    by (elim conjE) assumption
  with n1 have own: "label_selects_own_estimator [0, 1, 2]"
    by (simp add: upt_rec)
  from t2 have "(\<forall>c\<in>set [1, 2, 3 :: int]. 0 \<le> c) \<longrightarrow>
      (label_selects_own_estimator [1, 2, 3] \<longleftrightarrow> [1, 2, 3] = map int [0..<length [1, 2, 3 :: int]])"
    by (elim conjE) assumption
  with n2 have other: "\<not> label_selects_own_estimator [1, 2, 3]"
    by (simp add: upt_rec)
  from t1 r have ie: "py_getitem [example_svm, example_svm_b, example_svm_c] 3 = Inl IndexError"
    by blast
  have n1': "list_all (\<lambda>c. 0 \<le> c) [0, 1, 2 :: int]" by simp
  from m a row0 n1' own other r ie show ?thesis by blast
qed

text \<open>
  The claim as first stated allowed the labels \<open>0, \<dots>, n_classes - 1\<close> only. With the
  classes \<open>-3, -2, -1\<close> the three labels select the third, first and second estimator,
  each the estimator of its own class.
\<close>

theorem label_indexing_counterexample:
  "classes (svm_ovr (example_SVM3 [- 3, - 2, - 1])) = [- 3, - 2, - 1] \<and>
   [- 3, - 2, - 1] \<noteq> map int [0..<3] \<and>
   label_selects_own_estimator (classes (svm_ovr (example_SVM3 [- 3, - 2, - 1]))) \<and>
   estimators (svm_ovr (example_SVM3 [- 3, - 2, - 1])) =
     [example_svm, example_svm_b, example_svm_c] \<and>
   SVM_explain (example_SVM3 [- 3, - 2, - 1]) example_batch (Some [- 1, - 3, - 2]) =
     Inr [\<lparr>data = [4, 9], indices = [0, 1], width = 3\<rparr>,
          \<lparr>data = [1 / 2, - (1 / 2)], indices = [0, 2], width = 3\<rparr>,
          \<lparr>data = [4], indices = [1], width = 3\<rparr>] \<and>
   explain example_svm_c [example_batch ! 0] = Inr \<lparr>data = [4, 9], indices = [0, 1], width = 3\<rparr> \<and>
   explain example_svm [example_batch ! 1] =
     Inr \<lparr>data = [1 / 2, - (1 / 2)], indices = [0, 2], width = 3\<rparr> \<and>
   explain example_svm_b [example_batch ! 2] = Inr \<lparr>data = [4], indices = [1], width = 3\<rparr>"
  by (simp add: example_defs explain_defs label_selects_own_estimator_def upt_rec)

section \<open>Gamma resolution at fit time\<close>

text \<open>
  Claim C9. When \<^verbatim>\<open>SVM.fit\<close> returns for a kernel \<^verbatim>\<open>rbf\<close>, \<^verbatim>\<open>poly\<close> or
  \<^verbatim>\<open>sigmoid\<close>, the stored \<^verbatim>\<open>gamma_\<close> is \<open>1 / (n_features * variance(X))\<close> for
  the argument \<^verbatim>\<open>'scale'\<close> (where that quotient is a number), \<open>1 / n_features\<close> for
  \<^verbatim>\<open>None\<close>, and the argument itself otherwise; it depends on the constructor argument
  and the training matrix only, and the stored kernel callable is closed over it. A kernel
  name outside the four supported ones makes \<^verbatim>\<open>fit\<close> raise the assertion error.
\<close>

theorem gamma_resolution:
  "(sa_kernel a \<in> set [''rbf'', ''poly'', ''sigmoid''] \<longrightarrow> SVM_fit ovr_fit a X y = Inr s \<longrightarrow>
      (sa_gamma a = GammaStr ''scale'' \<longrightarrow>
         (\<forall>v. np_var X = Some v \<longrightarrow> real (n_cols X) * v \<noteq> 0 \<longrightarrow>
            svm_gamma s = GammaNum (1 / (real (n_cols X) * v)))) \<and>
      (sa_gamma a = GammaNone \<longrightarrow> svm_gamma s = GammaNum (1 / real (n_cols X))) \<and>
      (sa_gamma a \<noteq> GammaStr ''scale'' \<longrightarrow> sa_gamma a \<noteq> GammaNone \<longrightarrow>
         svm_gamma s = sa_gamma a) \<and>
      svm_kernel_func s =
        (if sa_kernel a = ''rbf'' then RbfKernel (svm_gamma s)
         else if sa_kernel a = ''poly'' then PolyKernel (sa_degree a) (svm_gamma s) (sa_coef0 a)
         else SigmoidKernel (sa_coef0 a) (svm_gamma s))) \<and>
   (sa_kernel a \<notin> set [''rbf'', ''poly'', ''sigmoid'', ''linear''] \<longrightarrow>
      SVM_fit ovr_fit a X y = Inl AssertionError)"
proof -
  have bad: "SVM_fit ovr_fit a X y = Inl AssertionError"
    if "sa_kernel a \<notin> set [''rbf'', ''poly'', ''sigmoid'', ''linear'']"
    using that by (simp add: SVM_fit_def create_kernel_callable_def)
  have good: "(sa_gamma a = GammaStr ''scale'' \<longrightarrow>
         (\<forall>v. np_var X = Some v \<longrightarrow> real (n_cols X) * v \<noteq> 0 \<longrightarrow>
            svm_gamma s = GammaNum (1 / (real (n_cols X) * v)))) \<and>
      (sa_gamma a = GammaNone \<longrightarrow> svm_gamma s = GammaNum (1 / real (n_cols X))) \<and>
      (sa_gamma a \<noteq> GammaStr ''scale'' \<longrightarrow> sa_gamma a \<noteq> GammaNone \<longrightarrow>
         svm_gamma s = sa_gamma a) \<and>
      svm_kernel_func s =
        (if sa_kernel a = ''rbf'' then RbfKernel (svm_gamma s)
         else if sa_kernel a = ''poly'' then PolyKernel (sa_degree a) (svm_gamma s) (sa_coef0 a)
         else SigmoidKernel (sa_coef0 a) (svm_gamma s))"
    if k: "sa_kernel a \<in> set [''rbf'', ''poly'', ''sigmoid'']" and f: "SVM_fit ovr_fit a X y = Inr s"
  proof -
    from k f obtain g where g: "compute_gamma (sa_gamma a) (n_cols X) X = Inr g"
      and sg: "svm_gamma s = g"
      and kf: "svm_kernel_func s =
        (if sa_kernel a = ''rbf'' then RbfKernel g
         else if sa_kernel a = ''poly'' then PolyKernel (sa_degree a) g (sa_coef0 a)
         else SigmoidKernel (sa_coef0 a) g)"
      by (auto simp: SVM_fit_def create_kernel_callable_def split: sum.splits if_splits)
    from g sg kf show ?thesis
      by (auto simp: compute_gamma_def split: if_splits option.splits)
  qed
  from bad good show ?thesis by blast
qed

theorem gamma_resolution_witness:
  "(\<exists>s. SVM_fit example_ovr_fit (example_SVM_args ''rbf'' (GammaStr ''scale'')) example_X [0, 1, 2] = Inr s \<and>
      np_var example_X = Some (2 / 9) \<and> real (n_cols example_X) * (2 / 9) \<noteq> 0 \<and>
      svm_gamma s = GammaNum (9 / 4) \<and> svm_kernel_func s = RbfKernel (GammaNum (9 / 4))) \<and>
   (\<exists>s. SVM_fit example_ovr_fit (example_SVM_args ''poly'' GammaNone) example_X [0, 1, 2] = Inr s \<and>
      svm_gamma s = GammaNum (1 / 2)) \<and>
   (\<exists>s. SVM_fit example_ovr_fit (example_SVM_args ''sigmoid'' (GammaNum 3)) example_X [0, 1, 2] = Inr s \<and>
      svm_gamma s = GammaNum 3) \<and>
   ''cosine'' \<notin> set [''rbf'', ''poly'', ''sigmoid'', ''linear''] \<and>
   SVM_fit example_ovr_fit (example_SVM_args ''cosine'' (GammaStr ''scale'')) example_X [0, 1, 2] =
     Inl AssertionError"
proof -
  let ?y = "[0, 1, 2 :: int]"
  have v: "np_var example_X = Some (2 / 9)"
    by (simp add: np_var_def example_X_def Let_def power2_eq_square)
  have n: "n_cols example_X = 2"
    by (simp add: n_cols_def example_X_def)
  obtain s1 where s1: "SVM_fit example_ovr_fit (example_SVM_args ''rbf'' (GammaStr ''scale'')) example_X ?y = Inr s1"
    by (simp add: SVM_fit_def create_kernel_callable_def compute_gamma_def example_SVM_args_def
        example_ovr_fit_def v n)
  obtain s2 where s2: "SVM_fit example_ovr_fit (example_SVM_args ''poly'' GammaNone) example_X ?y = Inr s2"
    by (simp add: SVM_fit_def create_kernel_callable_def compute_gamma_def example_SVM_args_def
        example_ovr_fit_def n)
  obtain s3 where s3: "SVM_fit example_ovr_fit (example_SVM_args ''sigmoid'' (GammaNum 3)) example_X ?y = Inr s3"
    by (simp add: SVM_fit_def create_kernel_callable_def compute_gamma_def example_SVM_args_def
        example_ovr_fit_def n)
  have k4: "''cosine'' \<notin> set [''rbf'', ''poly'', ''sigmoid'', ''linear'']" by simp
  from gamma_resolution [where a = "example_SVM_args ''rbf'' (GammaStr ''scale'')"
      and ovr_fit = example_ovr_fit and X = example_X and y = ?y and s = s1] s1
  have r1: "\<forall>v. np_var example_X = Some v \<longrightarrow> real (n_cols example_X) * v \<noteq> 0 \<longrightarrow>
      svm_gamma s1 = GammaNum (1 / (real (n_cols example_X) * v))"
    and k1: "svm_kernel_func s1 = RbfKernel (svm_gamma s1)"
    by (simp_all add: example_SVM_args_def)
  from r1 [rule_format, OF v] n k1
  have g1: "svm_gamma s1 = GammaNum (9 / 4) \<and> svm_kernel_func s1 = RbfKernel (GammaNum (9 / 4))"
    by simp
  from gamma_resolution [where a = "example_SVM_args ''poly'' GammaNone"
      and ovr_fit = example_ovr_fit and X = example_X and y = ?y and s = s2] s2 n
  have g2: "svm_gamma s2 = GammaNum (1 / 2)"
    by (simp add: example_SVM_args_def)
  from gamma_resolution [where a = "example_SVM_args ''sigmoid'' (GammaNum 3)"
      and ovr_fit = example_ovr_fit and X = example_X and y = ?y and s = s3] s3
  have g3: "svm_gamma s3 = GammaNum 3"
    by (simp add: example_SVM_args_def)
  from gamma_resolution [where a = "example_SVM_args ''cosine'' (GammaStr ''scale'')"
      and ovr_fit = example_ovr_fit and X = example_X and y = ?y]
  have g4: "SVM_fit example_ovr_fit (example_SVM_args ''cosine'' (GammaStr ''scale'')) example_X ?y =
     Inl AssertionError"
    by (simp add: example_SVM_args_def)
  from s1 s2 s3 g1 g2 g3 g4 v n k4 show ?thesis by auto
qed

section \<open>The self-check of the binary SVM\<close>

lemma example_decisions:
  "decision_function example_svm example_X = Inr [3 / 8, - (1 / 8), 1 / 8]"
proof -
  have "decision_function example_svm example_X = block_decision example_svm example_X"
    by (rule decision_function_one_block) (simp_all add: example_svm_def example_X_def)
  then show ?thesis
    by (simp add: block_decision_def example_svm_def example_X_def take_rows_def
        kernel_matrix_def linear_kernel_def dot_def bmul_def)
qed

lemma decision_function_pred_size:
  assumes "decision_function m X = Inr d"
  shows "1 \<le> pred_size m"
proof (rule ccontr)
  assume "\<not> 1 \<le> pred_size m"
  then have "nat (pred_size m) = 0" by simp
  then have "block_loop (block_decision m) X (nat (pred_size m)) 0 = Inr []"
    by (simp add: block_loop.simps [of _ X 0])
  with assms show False
    by (simp add: decision_function_def split: if_splits)
qed

text \<open>
  An estimator that \<^verbatim>\<open>fit\<close> returns is fitted in the sense of \<open>fitted\<close>, given what
  sklearn documents of its model: one dual coefficient per support index, and support indices
  that are rows of the training matrix.
\<close>

lemma fit_returns_fitted:
  assumes "BinarySVM_fit svc a X y n_check = Inr m"
    and "svc (SVC_arguments a) X y = Inr model"
    and "\<forall>c \<in> set (dual_coef model). length c = length (support model)"
    and "list_all (\<lambda>i. i < length X) (support model)"
  shows "fitted m"
proof -
  from assms(1,2) obtain d where m: "dual_form a X model = Inr m"
    and d: "decision_function m (py_prefix n_check X) = Inr d"
    by (auto simp: BinarySVM_fit_def split: sum.splits if_splits)
  from d have "1 \<le> pred_size m" by (rule decision_function_pred_size)
  with m assms(3,4) show ?thesis
    by (auto simp: dual_form_def fitted_def split: list.splits)
qed

text \<open>
  Claim C7. If \<^verbatim>\<open>BinarySVM.fit\<close> returns an estimator, the solver returned a model, the
  estimator is the dual form of that model, and on the first \<open>n_check\<close> training rows
  the labels and decision values recomputed from the dual form agree with the solver's own
  within the tolerance of \<^verbatim>\<open>np.allclose\<close>. If they do not agree, \<^verbatim>\<open>fit\<close> ends in
  an error and returns no estimator.
\<close>

theorem fit_self_check:
  "(BinarySVM_fit svc a X y n_check = Inr m \<longrightarrow>
      (\<exists>model. svc (SVC_arguments a) X y = Inr model \<and> dual_form a X model = Inr m \<and>
         agrees_with_solver model m (py_prefix n_check X))) \<and>
   (svc (SVC_arguments a) X y = Inr model' \<longrightarrow> dual_form a X model' = Inr m' \<longrightarrow>
      \<not> agrees_with_solver model' m' (py_prefix n_check X) \<longrightarrow>
      (\<exists>e. BinarySVM_fit svc a X y n_check = Inl e))"
proof -
  have ret: "\<exists>model. svc (SVC_arguments a) X y = Inr model \<and> dual_form a X model = Inr m \<and>
         agrees_with_solver model m (py_prefix n_check X)"
    if "BinarySVM_fit svc a X y n_check = Inr m" for m
    using that
    by (auto simp: BinarySVM_fit_def agrees_with_solver_def split: sum.splits if_splits)
  have "\<exists>e. BinarySVM_fit svc a X y n_check = Inl e"
    if s: "svc (SVC_arguments a) X y = Inr model'" and d: "dual_form a X model' = Inr m'"
      and n: "\<not> agrees_with_solver model' m' (py_prefix n_check X)"
  proof (cases "BinarySVM_fit svc a X y n_check")
    case (Inl e)
    then show ?thesis by blast
  next
    case (Inr m)
    from ret [OF Inr] s d have "agrees_with_solver model' m' (py_prefix n_check X)"
      by auto
    with n show ?thesis by simp
  qed
  with ret show ?thesis by blast
qed

theorem fit_self_check_witness:
  "BinarySVM_fit example_svc example_args example_X [1, 0, 1] 10 = Inr example_svm \<and>
   agrees_with_solver
     \<lparr>dual_coef = [[1 / 2, - (1 / 4)]], support = [0, 2], svc_intercept = [1 / 8],
      svc_predict = predict example_svm, svc_decision_function = decision_function example_svm\<rparr>
     example_svm (py_prefix 10 example_X) \<and>
   \<not> agrees_with_solver
     \<lparr>dual_coef = [[1 / 2, - (1 / 4)]], support = [0, 2], svc_intercept = [1 / 8],
      svc_predict = predict example_svm, svc_decision_function = (\<lambda>Xs. Inr (map (\<lambda>r. 0) Xs))\<rparr>
     example_svm (py_prefix 10 example_X) \<and>
   (\<exists>e. BinarySVM_fit example_svc_off example_args example_X [1, 0, 1] 10 = Inl e)"
proof -
  have p: "py_prefix 10 example_X = example_X"
    by (simp add: py_prefix_def example_X_def)
  have pr: "predict example_svm example_X = Inr [1, 0, 1]"
    by (simp add: predict_def example_decisions)
  have z: "map (\<lambda>r. 0 :: real) example_X = [0, 0, 0]"
    by (simp add: example_X_def)
  have d: "dual_form example_args example_X
      \<lparr>dual_coef = [[1 / 2, - (1 / 4)]], support = [0, 2], svc_intercept = [1 / 8],
       svc_predict = predict example_svm, svc_decision_function = decision_function example_svm\<rparr> =
      Inr example_svm"
    by (simp add: dual_form_def example_args_def example_svm_def n_cols_def example_X_def)
  have d': "dual_form example_args example_X
      \<lparr>dual_coef = [[1 / 2, - (1 / 4)]], support = [0, 2], svc_intercept = [1 / 8],
       svc_predict = predict example_svm,
       svc_decision_function = (\<lambda>Xs. Inr (map (\<lambda>r. 0) Xs))\<rparr> =
      Inr example_svm"
    by (simp add: dual_form_def example_args_def example_svm_def n_cols_def example_X_def)
  have a: "BinarySVM_fit example_svc example_args example_X [1, 0, 1] 10 = Inr example_svm"
    by (simp add: BinarySVM_fit_def example_svc_def d p pr example_decisions np_allclose_def
        isclose_def default_atol_def)
  have n: "\<not> agrees_with_solver
     \<lparr>dual_coef = [[1 / 2, - (1 / 4)]], support = [0, 2], svc_intercept = [1 / 8],
      svc_predict = predict example_svm, svc_decision_function = (\<lambda>Xs. Inr (map (\<lambda>r. 0) Xs))\<rparr>
     example_svm (py_prefix 10 example_X)"
    by (simp add: agrees_with_solver_def p pr example_decisions z np_allclose_def isclose_def
        default_atol_def)
  have s: "example_svc (SVC_arguments example_args) example_X [1, 0, 1] =
      Inr \<lparr>dual_coef = [[1 / 2, - (1 / 4)]], support = [0, 2], svc_intercept = [1 / 8],
       svc_predict = predict example_svm, svc_decision_function = decision_function example_svm\<rparr>"
    by (simp add: example_svc_def)
  have s': "example_svc_off (SVC_arguments example_args) example_X [1, 0, 1] =
      Inr \<lparr>dual_coef = [[1 / 2, - (1 / 4)]], support = [0, 2], svc_intercept = [1 / 8],
       svc_predict = predict example_svm,
       svc_decision_function = (\<lambda>Xs. Inr (map (\<lambda>r. 0) Xs))\<rparr>"
    by (simp add: example_svc_off_def)
  from fit_self_check [of example_svc example_args example_X "[1, 0, 1]" 10 example_svm] a s
  have g: "agrees_with_solver
     \<lparr>dual_coef = [[1 / 2, - (1 / 4)]], support = [0, 2], svc_intercept = [1 / 8],
      svc_predict = predict example_svm, svc_decision_function = decision_function example_svm\<rparr>
     example_svm (py_prefix 10 example_X)"
    by auto
  from fit_self_check [of example_svc_off example_args example_X "[1, 0, 1]" 10 _
      "\<lparr>dual_coef = [[1 / 2, - (1 / 4)]], support = [0, 2], svc_intercept = [1 / 8],
        svc_predict = predict example_svm,
        svc_decision_function = (\<lambda>Xs. Inr (map (\<lambda>r. 0) Xs))\<rparr>" example_svm] s' d' n
  have b: "\<exists>e. BinarySVM_fit example_svc_off example_args example_X [1, 0, 1] 10 = Inl e"
    by blast
  from a g n b show ?thesis by blast
qed

section \<open>Parsing the model file\<close>

lemma startswith_common:
  "startswith p s \<Longrightarrow> startswith q s \<Longrightarrow> take (length q) p = take (length p) q"
  unfolding startswith_def by (metis take_take min.commute)

lemma prefixes_exclusive:
  "startswith ''nr_class'' s \<Longrightarrow> \<not> startswith ''solver_type'' s"
  "startswith ''label'' s \<Longrightarrow> \<not> startswith ''solver_type'' s"
  "startswith ''label'' s \<Longrightarrow> \<not> startswith ''nr_class'' s"
  "startswith ''nr_feature'' s \<Longrightarrow> \<not> startswith ''solver_type'' s"
  "startswith ''nr_feature'' s \<Longrightarrow> \<not> startswith ''nr_class'' s"
  "startswith ''nr_feature'' s \<Longrightarrow> \<not> startswith ''label'' s"
  by (auto dest: startswith_common)

lemma model_line_validated:
  assumes "model_line lines i st = Inr st'"
  shows "validated_line (lines ! i)"
proof -
  let ?line = "py_strip (lines ! i)"
  let ?toks = "split_on (CHR '' '') ?line"
  have a: "\<exists>t\<in>set solver_types. item ?toks 1 = Inr t" if "startswith ''solver_type'' ?line"
    using assms that by (auto simp: model_line_def Let_def split: sum.splits if_splits)
  have b: "item ?toks 1 = Inr ''2''" if "startswith ''nr_class'' ?line"
    using assms that prefixes_exclusive(1) [OF that]
    by (auto simp: model_line_def Let_def split: sum.splits if_splits)
  have c: "item ?toks 1 = Inr ''1'' \<and> (item ?toks 2 = Inr ''0'' \<or> item ?toks 2 = Inr ''-1'')"
    if "startswith ''label'' ?line"
    using assms that prefixes_exclusive(2,3) [OF that]
    by (auto simp: model_line_def Let_def split: sum.splits if_splits)
  have d: "\<exists>t n. item ?toks 1 = Inr t \<and> py_int t = Inr n" if "startswith ''nr_feature'' ?line"
    using assms that prefixes_exclusive(4,5,6) [OF that]
    by (auto simp: model_line_def Let_def split: sum.splits if_splits)
  from a b c d show ?thesis
    by (simp add: validated_line_def Let_def)
qed

lemma sample_exclusive:
  "startswith ''nr_sample'' s \<Longrightarrow> \<not> startswith ''solver_type'' s"
  "startswith ''nr_sample'' s \<Longrightarrow> \<not> startswith ''nr_class'' s"
  "startswith ''nr_sample'' s \<Longrightarrow> \<not> startswith ''label'' s"
  "startswith ''nr_sample'' s \<Longrightarrow> \<not> startswith ''nr_feature'' s"
  "startswith ''nr_sample'' s \<Longrightarrow> \<not> startswith ''bias'' s"
  "startswith ''nr_sample'' s \<Longrightarrow> \<not> startswith ''w'' s"
  by (auto dest: startswith_common)

lemma alpha_exclusive:
  "startswith ''alpha'' s \<Longrightarrow> \<not> startswith ''solver_type'' s"
  "startswith ''alpha'' s \<Longrightarrow> \<not> startswith ''nr_class'' s"
  "startswith ''alpha'' s \<Longrightarrow> \<not> startswith ''label'' s"
  "startswith ''alpha'' s \<Longrightarrow> \<not> startswith ''nr_feature'' s"
  "startswith ''alpha'' s \<Longrightarrow> \<not> startswith ''bias'' s"
  "startswith ''alpha'' s \<Longrightarrow> \<not> startswith ''w'' s"
  "startswith ''alpha'' s \<Longrightarrow> \<not> startswith ''nr_sample'' s"
  by (auto dest: startswith_common)

lemma model_line_sample:
  assumes "model_line lines k st = Inr st'" and "startswith ''nr_sample'' (py_strip (lines ! k))"
  shows "\<exists>n. sample_count_of (lines ! k) = Some n \<and> st' = st\<lparr>l_nr_sample := Some n\<rparr>"
  using assms sample_exclusive [OF assms(2)]
  by (auto simp: model_line_def Let_def sample_count_of_def split: sum.splits if_splits)

lemma model_line_alpha:
  assumes "model_line lines k st = Inr st'" and "startswith ''alpha'' (py_strip (lines ! k))"
  shows "\<exists>al. alpha_numbers lines k = Inr al \<and> l_nr_sample st = Some (int (length al)) \<and>
           st' = st\<lparr>l_alpha := Some al\<rparr>"
  using assms alpha_exclusive [OF assms(2)]
  by (auto simp: model_line_def Let_def alpha_numbers_def split: sum.splits if_splits option.splits)

lemma model_line_other:
  assumes "model_line lines k st = Inr st'"
    and "\<not> startswith ''nr_sample'' (py_strip (lines ! k))"
    and "\<not> startswith ''alpha'' (py_strip (lines ! k))"
  shows "l_nr_sample st' = l_nr_sample st \<and> l_alpha st' = l_alpha st"
  using assms
  by (auto simp: model_line_def Let_def split: sum.splits if_splits option.splits)

lemma model_line_step:
  assumes l: "model_line lines k st = Inr st'" and inv: "locals_at lines k st"
  shows "locals_at lines (Suc k) st'"
proof -
  let ?line = "py_strip (lines ! k)"
  have v: "\<forall>i<Suc k. validated_line (lines ! i)"
    using inv model_line_validated [OF l] by (auto simp: locals_at_def less_Suc_eq)
  show ?thesis
  proof (cases "startswith ''nr_sample'' ?line")
    case True
    then have na: "\<not> startswith ''alpha'' ?line" by (auto dest: alpha_exclusive(7))
    from model_line_sample [OF l True] obtain n where "sample_count_of (lines ! k) = Some n"
      and "st' = st\<lparr>l_nr_sample := Some n\<rparr>" by auto
    with inv True na v show ?thesis
      by (auto simp: locals_at_def less_Suc_eq)
  next
    case False
    show ?thesis
    proof (cases "startswith ''alpha'' ?line")
      case True
      from model_line_alpha [OF l True] obtain al where al: "alpha_numbers lines k = Inr al"
        and c: "l_nr_sample st = Some (int (length al))" and s: "st' = st\<lparr>l_alpha := Some al\<rparr>"
        by auto
      from inv c al have "alpha_checked lines k"
        by (simp add: locals_at_def alpha_checked_def)
      with inv False True v al s show ?thesis
        by (auto simp: locals_at_def less_Suc_eq)
    next
      case na: False
      from model_line_other [OF l False na] inv False na v show ?thesis
        by (auto simp: locals_at_def less_Suc_eq)
    qed
  qed
qed

lemma model_loop_append:
  "model_loop lines (js @ ks) st =
     (case model_loop lines js st of Inl e \<Rightarrow> Inl e | Inr st' \<Rightarrow> model_loop lines ks st')"
  by (induction js arbitrary: st) (auto split: sum.splits)

lemma model_loop_locals:
  "model_loop lines [0..<k] st0 = Inr st \<Longrightarrow> locals_at lines 0 st0 \<Longrightarrow> locals_at lines k st"
proof (induction k arbitrary: st)
  case 0
  then show ?case by simp
next
  case (Suc k)
  from Suc.prems(1) obtain st1 where a: "model_loop lines [0..<k] st0 = Inr st1"
    and b: "model_line lines k st1 = Inr st"
    by (auto simp: model_loop_append split: sum.splits)
  from Suc.IH [OF a Suc.prems(2)] have "locals_at lines k st1" .
  with b show ?case by (rule model_line_step)
qed

lemma parse_model_locals:
  assumes "parse_model_file (Some lines) = Inr r"
  shows "\<exists>st. locals_at lines (length lines) st \<and> r = l_alpha st"
proof -
  let ?init = "\<lparr>l_nr_feature = None, l_w = None, l_nr_sample = None, l_alpha = None\<rparr>"
  from assms obtain st where st: "model_loop lines [0..<length lines] ?init = Inr st"
    and r: "r = l_alpha st"
    by (auto simp: parse_model_file_def split: sum.splits)
  have "locals_at lines 0 ?init" by (simp add: locals_at_def)
  with st have "locals_at lines (length lines) st" by (rule model_loop_locals)
  with r show ?thesis by blast
qed

lemma alpha_in_force_line:
  "alpha_in_force lines k = Some i \<Longrightarrow> i < k \<and> startswith ''alpha'' (py_strip (lines ! i))"
  by (induction k) (auto split: if_splits)

text \<open>
  Claim C5, as amended. \<^verbatim>\<open>parse_model_file\<close> raises when the file does not exist. When it
  returns, every line that carries a solver type, a class count, class labels or a feature
  count passed its check (one of the two dual solvers; 2; \<open>1\<close> with \<open>0\<close> or \<open>-1\<close>; an
  integer); every line that starts with \<^verbatim>\<open>alpha\<close> is followed by a line of numbers, as
  many as the sample count that the nearest \<^verbatim>\<open>nr_sample\<close> line before it declares; and
  a returned coefficient vector is the block of the last \<^verbatim>\<open>alpha\<close> line. A file with a
  line that fails its check, or with an \<^verbatim>\<open>alpha\<close> line whose block is missing,
  malformed or of another length than the declared sample count, ends in an error and
  returns nothing.
\<close>

theorem parse_model_validation:
  "parse_model_file None = Inl AssertionError \<and>
   (parse_model_file (Some lines) = Inr r \<longrightarrow>
      (\<forall>l\<in>set lines. validated_line l) \<and>
      (\<forall>i<length lines. startswith ''alpha'' (py_strip (lines ! i)) \<longrightarrow> alpha_checked lines i) \<and>
      (\<forall>i. alpha_in_force lines (length lines) = Some i \<longrightarrow>
         (\<exists>al. alpha_numbers lines i = Inr al \<and> r = Some al)) \<and>
      (\<forall>al. r = Some al \<longrightarrow>
         (\<exists>i. alpha_in_force lines (length lines) = Some i \<and> alpha_numbers lines i = Inr al \<and>
            count_in_force lines i = Some (int (length al))))) \<and>
   ((\<exists>l\<in>set lines. \<not> validated_line l) \<longrightarrow> (\<exists>e. parse_model_file (Some lines) = Inl e)) \<and>
   ((\<exists>i<length lines. startswith ''alpha'' (py_strip (lines ! i)) \<and> \<not> alpha_checked lines i) \<longrightarrow>
      (\<exists>e. parse_model_file (Some lines) = Inl e))"
proof -
  have ret: "(\<forall>l\<in>set lines. validated_line l) \<and>
      (\<forall>i<length lines. startswith ''alpha'' (py_strip (lines ! i)) \<longrightarrow> alpha_checked lines i) \<and>
      (\<forall>i. alpha_in_force lines (length lines) = Some i \<longrightarrow>
         (\<exists>al. alpha_numbers lines i = Inr al \<and> r = Some al)) \<and>
      (\<forall>al. r = Some al \<longrightarrow>
         (\<exists>i. alpha_in_force lines (length lines) = Some i \<and> alpha_numbers lines i = Inr al \<and>
            count_in_force lines i = Some (int (length al))))"
    if "parse_model_file (Some lines) = Inr r" for r
  proof -
    from parse_model_locals [OF that] obtain st where inv: "locals_at lines (length lines) st"
      and r: "r = l_alpha st" by blast
    from inv have v: "\<forall>l\<in>set lines. validated_line l"
      by (auto simp: locals_at_def in_set_conv_nth)
    from inv have c: "\<forall>i<length lines. startswith ''alpha'' (py_strip (lines ! i)) \<longrightarrow> alpha_checked lines i"
      by (simp add: locals_at_def)
    have last: "\<exists>al. alpha_numbers lines i = Inr al \<and> r = Some al \<and>
        count_in_force lines i = Some (int (length al))"
      if "alpha_in_force lines (length lines) = Some i" for i
    proof -
      from alpha_in_force_line [OF that] c have "alpha_checked lines i" by simp
      then obtain al where "alpha_numbers lines i = Inr al"
        "count_in_force lines i = Some (int (length al))"
        by (auto simp: alpha_checked_def split: sum.splits)
      with inv r that show ?thesis by (simp add: locals_at_def)
    qed
    have some: "\<exists>i. alpha_in_force lines (length lines) = Some i \<and> alpha_numbers lines i = Inr al \<and>
            count_in_force lines i = Some (int (length al))"
      if "r = Some al" for al
    proof -
      from inv r that obtain i where i: "alpha_in_force lines (length lines) = Some i"
        by (auto simp: locals_at_def split: option.splits)
      with last [OF i] that show ?thesis by auto
    qed
    from v c last some show ?thesis by blast
  qed
  have raises: "\<exists>e. parse_model_file (Some lines) = Inl e"
    if "\<And>r. parse_model_file (Some lines) \<noteq> Inr r"
    using that by (cases "parse_model_file (Some lines)") auto
  have bad_line: "\<exists>e. parse_model_file (Some lines) = Inl e" if "\<exists>l\<in>set lines. \<not> validated_line l"
    using that ret by (intro raises) blast
  have bad_alpha: "\<exists>e. parse_model_file (Some lines) = Inl e"
    if "\<exists>i<length lines. startswith ''alpha'' (py_strip (lines ! i)) \<and> \<not> alpha_checked lines i"
    using that ret by (intro raises) blast
  have none: "parse_model_file None = Inl AssertionError"
    by (simp add: parse_model_file_def)
  from none ret bad_line bad_alpha show ?thesis by blast
qed

theorem parse_model_validation_witness:
  "parse_model_file (Some example_model_file) = Inr (Some [1 / 2, 1 / 4, 1]) \<and>
   list_all validated_line example_model_file \<and>
   alpha_in_force example_model_file (length example_model_file) = Some 9 \<and>
   alpha_numbers example_model_file 9 = Inr [1 / 2, 1 / 4, 1] \<and>
   count_in_force example_model_file 9 = Some 3 \<and>
   alpha_checked example_model_file 9 \<and>
   9 < length example_model_file_mismatch \<and>
   startswith ''alpha'' (py_strip (example_model_file_mismatch ! 9)) \<and>
   alpha_numbers example_model_file_mismatch 9 = Inr [1 / 2, 1 / 4, 1] \<and>
   count_in_force example_model_file_mismatch 9 = Some 4 \<and>
   \<not> alpha_checked example_model_file_mismatch 9 \<and>
   parse_model_file (Some example_model_file_mismatch) = Inl AssertionError"
proof -
  have a: "parse_model_file (Some example_model_file) = Inr (Some [1 / 2, 1 / 4, 1])"
    by code_simp
  have l: "length example_model_file = 11" "length example_model_file_mismatch = 11"
    by (simp_all add: example_model_file_def example_model_file_mismatch_def)
  have i: "alpha_in_force example_model_file 11 = Some 9"
    by code_simp
  have s: "startswith ''alpha'' (py_strip (example_model_file ! 9))"
    by code_simp
  have n: "alpha_numbers example_model_file_mismatch 9 = Inr [1 / 2, 1 / 4, 1]"
    by code_simp
  have c: "count_in_force example_model_file_mismatch 9 = Some 4"
    by code_simp
  have s': "startswith ''alpha'' (py_strip (example_model_file_mismatch ! 9))"
    by code_simp
  have e: "parse_model_file (Some example_model_file_mismatch) = Inl AssertionError"
    by code_simp
  from n c have bad: "\<not> alpha_checked example_model_file_mismatch 9"
    by (simp add: alpha_checked_def)
  note t = parse_model_validation [of example_model_file "Some [1 / 2, 1 / 4, 1]"]
  from t a have v: "\<forall>l\<in>set example_model_file. validated_line l"
    by blast
  from t a have "\<forall>i<length example_model_file.
      startswith ''alpha'' (py_strip (example_model_file ! i)) \<longrightarrow> alpha_checked example_model_file i"
    by blast
  with s l have k: "alpha_checked example_model_file 9"
    by simp
  from t a obtain j where j: "alpha_in_force example_model_file (length example_model_file) = Some j"
    and nj: "alpha_numbers example_model_file j = Inr [1 / 2, 1 / 4, 1]"
    and cj: "count_in_force example_model_file j = Some (int (length [1 / 2, 1 / 4, 1 :: real]))"
    by blast
  from j i l have "j = 9" by simp
  with nj cj have nc: "alpha_numbers example_model_file 9 = Inr [1 / 2, 1 / 4, 1]"
    "count_in_force example_model_file 9 = Some 3"
    by simp_all
  have ex: "\<exists>i<length example_model_file_mismatch.
      startswith ''alpha'' (py_strip (example_model_file_mismatch ! i)) \<and>
      \<not> alpha_checked example_model_file_mismatch i"
    using s' bad l by (intro exI [of _ 9]) simp
  from parse_model_validation [of example_model_file_mismatch None] ex
  have "\<exists>e. parse_model_file (Some example_model_file_mismatch) = Inl e"
    by blast
  with a v i l k nc s' n c bad e show ?thesis
    by (simp add: list_all_iff)
qed

text \<open>
  The claim as first stated also promised an error for a file without an alpha block. The
  model file without one is read to the end without an error; the result is the array of
  \<^verbatim>\<open>None\<close>.
\<close>

theorem parse_model_validation_counterexample:
  "parse_model_file (Some example_model_file_no_alpha) = Inr None"
  by code_simp

section \<open>Parsing the prediction file\<close>

text \<open>
  Claim C4. With \<^verbatim>\<open>minus_to_zeros\<close> enabled, the prediction parsers return the label
  \<open>-1\<close> of the \<open>{-1, +1}\<close> convention as 0; the label 0 of the \<open>{1, 0}\<close> convention,
  which the header check of \<^verbatim>\<open>parse_lr_predictions\<close> accepts, they return as 1. On the
  prediction file with the header \<^verbatim>\<open>labels 1 0\<close> and the predicted labels 0 and 1 the
  result is the labels 1 and 1.
\<close>

theorem parse_predictions_zero_label:
  "parse_lr_predictions (Some example_prediction_file) True =
     Inr ([1, 1], [[3 / 4, 1 / 4], [1 / 10, 9 / 10]]) \<and>
   parse_linear_svc_predictions (Some [''0\<newline>'', ''1\<newline>'']) True = Inr [1, 1] \<and>
   parse_lr_predictions (Some example_prediction_file_signed) True =
     Inr ([0, 1], [[3 / 4, 1 / 4], [1 / 10, 9 / 10]]) \<and>
   parse_lr_predictions (Some example_prediction_file) False =
     Inr ([0, 1], [[3 / 4, 1 / 4], [1 / 10, 9 / 10]])"
  by code_simp

section \<open>Fitting the binary kernel logistic regression\<close>

text \<open>
  With the three names that \<^verbatim>\<open>fit\<close> reads bound to the functions of the dual
  logistic-regression path, a returning \<^verbatim>\<open>fit\<close> has run the trainer with solver 7 on
  the data with the labels remapped to \<open>-1\<close> and \<open>1\<close>, and stores the parsed
  coefficients.
\<close>

lemma fit_with_lr_functions:
  assumes "BinaryKernelLogisticRegression_fit (liblinear_util_lr ext) C ps X y n_check atol = Inr k"
  shows "\<exists>model. run_train ext 7 C (SvmlightFile X (map (\<lambda>l. if l = 0 then - 1 else 1) y)) = (0, model) \<and>
           parse_model_file model = Inr (Some (klr_coef k)) \<and> klr_X_train k = X"
proof -
  let ?y = "map (\<lambda>l. if l = 0 then - 1 else 1) y"
  from assms obtain data model c where d: "create_data_file X ?y = Inr data"
    and t: "train_lr ext data C = Inr model" and p: "parse_model_file model = Inr (Some c)"
    and k: "klr_coef k = c \<and> klr_X_train k = X"
    unfolding BinaryKernelLogisticRegression_fit_def liblinear_util_lr_def getattr_def Let_def
    by (auto split: sum.splits if_splits option.splits prod.splits)
  from d have "data = SvmlightFile X ?y"
    by (auto simp: create_data_file_def split: if_splits)
  with t have "run_train ext 7 C (SvmlightFile X ?y) = (0, model)"
    by (auto simp: train_lr_def split: prod.splits if_splits)
  with p k show ?thesis by auto
qed

text \<open>
  Claim C3. \<^verbatim>\<open>BinaryKernelLogisticRegression.fit\<close> on the two training points
  \<open>[1]\<close>, \<open>[2]\<close> with the labels 0 and 1 raises AttributeError: after writing the data
  file it reads \<^verbatim>\<open>liblinear_util.train_model\<close>, a name the module does not define, so no
  solver runs and no coefficients are stored. With the module as it is, no call of
  \<^verbatim>\<open>fit\<close> returns an estimator.
\<close>

theorem fit_missing_adapter_names:
  "BinaryKernelLogisticRegression_fit liblinear_util 1 1000 [[1], [2]] [0, 1] 10 (1 / 100000) =
     Inl AttributeError \<and>
   (\<forall>C ps X y n_check atol k.
      BinaryKernelLogisticRegression_fit liblinear_util C ps X y n_check atol \<noteq> Inr k)"
proof -
  have a: "BinaryKernelLogisticRegression_fit liblinear_util 1 1000 [[1], [2]] [0, 1] 10
      (1 / 100000) = Inl AttributeError"
    by (simp add: BinaryKernelLogisticRegression_fit_def liblinear_util_def getattr_def
        np_unique_def create_data_file_def)
  have b: "BinaryKernelLogisticRegression_fit liblinear_util C ps X y n_check atol \<noteq> Inr k"
    for C ps X y n_check atol k
    by (simp add: BinaryKernelLogisticRegression_fit_def liblinear_util_def getattr_def Let_def
        split: sum.splits)
  from a b show ?thesis by blast
qed

end
